theory Spec2Isabelle
  imports Complex_Main "HOL-Library.AList" "HOL-Library.Log_Nat"
begin

section \<open>JavaScript numbers\<close>

text \<open>
  A JavaScript number is an IEEE 754 double: a finite value, which is a rational
  number, one of the two infinities, or \<^verbatim>\<open>NaN\<close>. The two zeros are not told
  apart: no operation used here (truthiness, \<^verbatim>\<open>>\<close>, \<^verbatim>\<open>+\<close>, \<^verbatim>\<open>*\<close>) sees the sign of
  a zero.
\<close>

datatype jsnum = Dbl rat | PosInf | NegInf | NaN

text \<open>
  Every arithmetic operation returns the double nearest to the exact result, the
  one with the even significand when two are equally near. \<open>ilog2 x\<close> is the
  binary exponent of a positive \<open>x\<close>, so that \<open>2 powi ilog2 x \<le> x < 2 powi (ilog2 x + 1)\<close>.
  A double has 53 significant bits and exponents from \<open>-1022\<close> to \<open>1023\<close>: the
  spacing of the doubles around \<open>x\<close> is \<open>2 powi (e - 52)\<close> for the exponent \<open>e\<close> of
  \<open>x\<close>, and \<open>2 powi (- 1074)\<close> below the smallest normal number; a result that
  rounds to \<open>2 powi 1024\<close> or more is infinite.
\<close>

definition round_half_even :: "rat \<Rightarrow> int" where
  "round_half_even y =
     (let f = \<lfloor>y\<rfloor>; d = y - of_int f
      in if d < 1 / 2 then f
         else if 1 / 2 < d then f + 1
         else if even f then f else f + 1)"

definition ilog2 :: "rat \<Rightarrow> int" where
  "ilog2 x = (case quotient_of x of (a, b) \<Rightarrow>
      (let e = bitlen a - bitlen b in if 2 powi e \<le> x then e else e - 1))"

definition fl_pos :: "rat \<Rightarrow> jsnum" where
  "fl_pos x =
     (let e = max (ilog2 x) (- 1022);
          q = 2 powi (e - 52);
          y = of_int (round_half_even (x / q)) * q
      in if 2 powi 1024 \<le> y then PosInf else Dbl y)"

definition num_neg :: "jsnum \<Rightarrow> jsnum" where
  "num_neg a = (case a of Dbl x \<Rightarrow> Dbl (- x) | PosInf \<Rightarrow> NegInf | NegInf \<Rightarrow> PosInf | NaN \<Rightarrow> NaN)"

definition fl :: "rat \<Rightarrow> jsnum" where
  "fl x = (if x = 0 then Dbl 0 else if x < 0 then num_neg (fl_pos (- x)) else fl_pos x)"

text \<open>\<^verbatim>\<open>a + b\<close>, \<^verbatim>\<open>a * b\<close> and \<^verbatim>\<open>a > b\<close> on numbers.\<close>

fun num_add :: "jsnum \<Rightarrow> jsnum \<Rightarrow> jsnum" where
  "num_add NaN b = NaN"
| "num_add a NaN = NaN"
| "num_add (Dbl x) (Dbl y) = fl (x + y)"
| "num_add PosInf NegInf = NaN"
| "num_add NegInf PosInf = NaN"
| "num_add PosInf b = PosInf"
| "num_add a PosInf = PosInf"
| "num_add NegInf b = NegInf"
| "num_add a NegInf = NegInf"

fun num_mul :: "jsnum \<Rightarrow> jsnum \<Rightarrow> jsnum" where
  "num_mul NaN b = NaN"
| "num_mul a NaN = NaN"
| "num_mul (Dbl x) (Dbl y) = fl (x * y)"
| "num_mul (Dbl x) b = (if x = 0 then NaN else if 0 < x then b else num_neg b)"
| "num_mul a (Dbl y) = (if y = 0 then NaN else if 0 < y then a else num_neg a)"
| "num_mul PosInf b = b"
| "num_mul NegInf b = num_neg b"

fun num_gt :: "jsnum \<Rightarrow> jsnum \<Rightarrow> bool" where
  "num_gt NaN b = False"
| "num_gt a NaN = False"
| "num_gt (Dbl x) (Dbl y) = (y < x)"
| "num_gt a PosInf = False"
| "num_gt PosInf b = True"
| "num_gt NegInf b = False"
| "num_gt a NegInf = True"

text \<open>\<^verbatim>\<open>Date.now()\<close> is a whole number of milliseconds.\<close>

definition ms :: "int \<Rightarrow> jsnum" where
  "ms t = Dbl (of_int t)"

section \<open>JavaScript values\<close>

text \<open>
  The token store keeps whatever values its caller hands over, and its defaults
  (\<^verbatim>\<open>x || d\<close>) and its check \<^verbatim>\<open>typeof x === 'number'\<close> depend on the dynamic type
  of a value. Values are therefore a datatype.
\<close>

datatype jsval =
    JUndefined
  | JNull
  | JBool bool
  | JNum jsnum
  | JStr string
  | JArr "jsval list"
  | JObj "(string \<times> jsval) list"

text \<open>Truthiness: what \<^verbatim>\<open>!x\<close> and \<^verbatim>\<open>x || d\<close> test.\<close>

fun truthy :: "jsval \<Rightarrow> bool" where
  "truthy JUndefined = False"
| "truthy JNull = False"
| "truthy (JBool b) = b"
| "truthy (JNum n) = (n \<noteq> Dbl 0 \<and> n \<noteq> NaN)"
| "truthy (JStr s) = (s \<noteq> [])"
| "truthy (JArr xs) = True"
| "truthy (JObj kvs) = True"

definition js_or :: "jsval \<Rightarrow> jsval \<Rightarrow> jsval" where
  "js_or a d = (if truthy a then a else d)"

section \<open>CSRF state registry (middleware/csrfProtection.js)\<close>

text \<open>
  \<^verbatim>\<open>stateStore\<close> is a JavaScript \<^verbatim>\<open>Map\<close> from state token to the timestamp of its
  issue. A \<^verbatim>\<open>Map\<close> keeps insertion order and \<^verbatim>\<open>set\<close> on a key already there
  replaces the value in place, which is \<open>AList.update\<close>; \<^verbatim>\<open>get\<close> is \<open>map_of\<close> and
  \<^verbatim>\<open>delete\<close> is \<open>AList.delete\<close>. The functions mutate the module's map; the
  model passes the map in and returns the new one. \<^verbatim>\<open>Date.now()\<close> and the
  result of \<^verbatim>\<open>uuidv4()\<close> (package uuid, not part of the repository) are
  arguments.
\<close>

type_synonym stateStore = "(string \<times> int) list"

definition STATE_EXPIRATION_MS :: int where
  "STATE_EXPIRATION_MS = 10 * 60 * 1000"

definition generateState :: "string \<Rightarrow> int \<Rightarrow> stateStore \<Rightarrow> string \<times> stateStore" where
  "generateState uuid now ss = (uuid, AList.update uuid now ss)"

text \<open>
  \<^verbatim>\<open>!state\<close> holds of the empty string; \<^verbatim>\<open>!timestamp\<close> holds when the key is
  absent (\<^verbatim>\<open>undefined\<close>) and also when the stored number is \<open>0\<close>.
\<close>

definition validateState :: "int \<Rightarrow> string \<Rightarrow> stateStore \<Rightarrow> bool \<times> stateStore" where
  "validateState now state ss =
     (if state = [] then (False, ss)
      else case map_of ss state of
          None \<Rightarrow> (False, ss)
        | Some timestamp \<Rightarrow>
            if timestamp = 0 then (False, ss)
            else if now - timestamp > STATE_EXPIRATION_MS
              then (False, AList.delete state ss)
              else (True, AList.delete state ss))"

text \<open>
  The sweep walks the entries and deletes each one that is too old; deleting
  from a \<^verbatim>\<open>Map\<close> while iterating over it is allowed and does not end the walk.
\<close>

definition cleanupExpiredStates :: "int \<Rightarrow> stateStore \<Rightarrow> stateStore" where
  "cleanupExpiredStates now ss =
     fold (\<lambda>(state, timestamp) m.
             if now - timestamp > STATE_EXPIRATION_MS then AList.delete state m else m)
          ss ss"

definition getStateCount :: "stateStore \<Rightarrow> nat" where
  "getStateCount ss = length ss"

definition clearAllStates :: "stateStore \<Rightarrow> stateStore" where
  "clearAllStates ss = []"

section \<open>Token store (services/tokenStorage.js)\<close>

text \<open>
  The argument \<^verbatim>\<open>tokenData\<close> is an object: a list of properties, where reading a
  property that is not there gives \<^verbatim>\<open>undefined\<close>.
\<close>

type_synonym jsobject = "(string \<times> jsval) list"

definition get_prop :: "jsobject \<Rightarrow> string \<Rightarrow> jsval" where
  "get_prop obj k = (case map_of obj k of None \<Rightarrow> JUndefined | Some v \<Rightarrow> v)"

fun typeof :: "jsval \<Rightarrow> string" where
  "typeof JUndefined = ''undefined''"
| "typeof JNull = ''object''"
| "typeof (JBool b) = ''boolean''"
| "typeof (JNum n) = ''number''"
| "typeof (JStr s) = ''string''"
| "typeof (JArr xs) = ''object''"
| "typeof (JObj kvs) = ''object''"

text \<open>The record that \<^verbatim>\<open>tokenStore\<close> holds for a user.\<close>

record credential =
  accessToken :: jsval
  tokenType :: jsval
  expiresAt :: jsnum
  permissions :: jsval
  instagramUserId :: jsval
  instagramAccountId :: jsval
  instagramUsername :: jsval
  pageAccessToken :: jsval
  createdAt :: int

type_synonym 'k tokenStore = "('k \<times> credential) list"

text \<open>
  \<^verbatim>\<open>typeof x === 'number' && x > 0 ? x : 60 * 24 * 60 * 60\<close>. The test
  \<^verbatim>\<open>typeof\<close> passes numbers only, \<^verbatim>\<open>NaN\<close> and the infinities among them, and
  \<^verbatim>\<open>NaN > 0\<close> is false.
\<close>

definition expiresInSeconds :: "jsval \<Rightarrow> jsnum" where
  "expiresInSeconds x =
     (case x of
        JNum n \<Rightarrow> if num_gt n (Dbl 0) then n else Dbl (60 * 24 * 60 * 60)
      | _ \<Rightarrow> Dbl (60 * 24 * 60 * 60))"

text \<open>
  \<open>saveToken\<close> reads the clock twice, for \<^verbatim>\<open>expiresAt\<close> (\<open>now\<close>) and for
  \<^verbatim>\<open>createdAt\<close> (\<open>created\<close>). It returns \<^verbatim>\<open>tokenStore.get(userId)\<close>, which is the
  record just written.
\<close>

definition saveToken ::
  "int \<Rightarrow> int \<Rightarrow> 'k \<Rightarrow> jsobject \<Rightarrow> 'k tokenStore \<Rightarrow> credential \<times> 'k tokenStore" where
  "saveToken now created userId tokenData ts =
     (let r = \<lparr> accessToken = get_prop tokenData ''accessToken'',
                 tokenType = js_or (get_prop tokenData ''tokenType'') (JStr ''bearer''),
                 expiresAt = num_add (ms now)
                               (num_mul (expiresInSeconds (get_prop tokenData ''expiresIn'')) (Dbl 1000)),
                 permissions = js_or (get_prop tokenData ''permissions'') (JArr []),
                 instagramUserId = get_prop tokenData ''instagramUserId'',
                 instagramAccountId = js_or (get_prop tokenData ''instagramAccountId'') JNull,
                 instagramUsername = js_or (get_prop tokenData ''instagramUsername'') JNull,
                 pageAccessToken = js_or (get_prop tokenData ''pageAccessToken'') JNull,
                 createdAt = created \<rparr>
      in (r, AList.update userId r ts))"

text \<open>The stored value is an object, so \<^verbatim>\<open>!tokenData\<close> holds only of a missing key.\<close>

definition getToken :: "int \<Rightarrow> 'k \<Rightarrow> 'k tokenStore \<Rightarrow> credential option \<times> 'k tokenStore" where
  "getToken now userId ts =
     (case map_of ts userId of
        None \<Rightarrow> (None, ts)
      | Some tokenData \<Rightarrow>
          if num_gt (ms now) (expiresAt tokenData) then (None, AList.delete userId ts)
          else (Some tokenData, ts))"

definition deleteToken :: "'k \<Rightarrow> 'k tokenStore \<Rightarrow> bool \<times> 'k tokenStore" where
  "deleteToken userId ts = (map_of ts userId \<noteq> None, AList.delete userId ts)"

text \<open>
  \<open>getAllTokens\<close> copies every entry and adds the key and the flag
  \<^verbatim>\<open>isExpired\<close>; it changes nothing. One clock reading stands for the readings
  of the loop.
\<close>

record 'k listedToken =
  userId :: 'k
  token :: credential
  isExpired :: bool

definition getAllTokens :: "int \<Rightarrow> 'k tokenStore \<Rightarrow> 'k listedToken list" where
  "getAllTokens now ts =
     map (\<lambda>(u, tokenData). \<lparr> userId = u, token = tokenData,
                              isExpired = num_gt (ms now) (expiresAt tokenData) \<rparr>) ts"

definition getTokenCount :: "'k tokenStore \<Rightarrow> nat" where
  "getTokenCount ts = length ts"

definition clearAllTokens :: "'k tokenStore \<Rightarrow> 'k tokenStore" where
  "clearAllTokens ts = []"

section \<open>The server's state and its one timer\<close>

text \<open>
  The two maps are module-level state. The only timer of the repository is
  \<^verbatim>\<open>setInterval(cleanupExpiredStates, CLEANUP_INTERVAL_MS)\<close> in the middleware.
\<close>

record server =
  stateStore :: stateStore
  tokenStore :: "jsval tokenStore"

definition CLEANUP_INTERVAL_MS :: int where
  "CLEANUP_INTERVAL_MS = 5 * 60 * 1000"

definition timer_tick :: "int \<Rightarrow> server \<Rightarrow> server" where
  "timer_tick now sys = sys\<lparr> stateStore := cleanupExpiredStates now (stateStore sys) \<rparr>"

section \<open>OAuth service (services/instagramOAuth.js)\<close>

text \<open>
  Each function of the service sends one request with axios (not part of the
  repository) and returns \<^verbatim>\<open>response.data\<close>; when the request fails it throws
  an \<^verbatim>\<open>Error\<close> whose message is a fixed prefix followed by the message of the
  failure. The answers of the network are the fields of \<open>network\<close>: \<open>Inl m\<close>
  is a failed request with message \<open>m\<close>, \<open>Inr d\<close> an answer with body \<open>d\<close>.
  A body is an object of the shape the Graph API documents, with any value in
  each field; the source's field names \<^verbatim>\<open>id\<close>, \<^verbatim>\<open>name\<close> and the page's
  \<^verbatim>\<open>access_token\<close> are prefixed here.
\<close>

record token_response =
  access_token :: jsval
  token_type :: jsval
  expires_in :: jsval

record user_info =
  user_id :: jsval
  user_name :: jsval

text \<open>
  \<open>instagram_business_account\<close> is \<open>None\<close> when the page has no such property and
  \<open>Some i\<close> when it is an object whose \<^verbatim>\<open>id\<close> is \<open>i\<close>.
\<close>

record page =
  page_access_token :: jsval
  instagram_business_account :: "jsval option"

record ig_account =
  username :: jsval

record network =
  http_token :: "string \<Rightarrow> string + token_response"
  http_long_lived_token :: "jsval \<Rightarrow> string + token_response"
  http_me :: "jsval \<Rightarrow> string + user_info"
  http_accounts :: "jsval \<Rightarrow> string + page list option"
  http_ig_account :: "jsval \<Rightarrow> jsval \<Rightarrow> string + ig_account"

definition exchangeCodeForToken :: "network \<Rightarrow> string \<Rightarrow> string + token_response" where
  "exchangeCodeForToken net c =
     (case http_token net c of
        Inl m \<Rightarrow> Inl (''Failed to exchange authorization code: '' @ m)
      | Inr d \<Rightarrow> Inr d)"

definition exchangeForLongLivedToken :: "network \<Rightarrow> jsval \<Rightarrow> string + token_response" where
  "exchangeForLongLivedToken net shortLivedToken =
     (case http_long_lived_token net shortLivedToken of
        Inl m \<Rightarrow> Inl (''Failed to get long-lived token: '' @ m)
      | Inr d \<Rightarrow> Inr d)"

definition getInstagramUser :: "network \<Rightarrow> jsval \<Rightarrow> string + user_info" where
  "getInstagramUser net tok =
     (case http_me net tok of
        Inl m \<Rightarrow> Inl (''Failed to get user info: '' @ m)
      | Inr d \<Rightarrow> Inr d)"

text \<open>\<^verbatim>\<open>return response.data.data || []\<close>\<close>

definition getFacebookPages :: "network \<Rightarrow> jsval \<Rightarrow> string + page list" where
  "getFacebookPages net tok =
     (case http_accounts net tok of
        Inl m \<Rightarrow> Inl (''Failed to get Facebook Pages: '' @ m)
      | Inr None \<Rightarrow> Inr []
      | Inr (Some ps) \<Rightarrow> Inr ps)"

definition getInstagramBusinessAccount :: "network \<Rightarrow> jsval \<Rightarrow> jsval \<Rightarrow> string + ig_account" where
  "getInstagramBusinessAccount net tok acct =
     (case http_ig_account net tok acct of
        Inl m \<Rightarrow> Inl (''Failed to get Instagram Business Account: '' @ m)
      | Inr d \<Rightarrow> Inr d)"

section \<open>OAuth callback (routes/auth.js)\<close>

text \<open>
  The query of the callback request: each parameter is a string or is missing.
  \<^verbatim>\<open>!p\<close> holds of a missing parameter and of the empty string.
\<close>

record query =
  code :: "string option"
  state :: "string option"
  error :: "string option"
  error_reason :: "string option"
  error_description :: "string option"

definition given :: "string option \<Rightarrow> bool" where
  "given p = (case p of None \<Rightarrow> False | Some s \<Rightarrow> s \<noteq> [])"

text \<open>\<^verbatim>\<open>p || d\<close> on a parameter.\<close>

definition or_else :: "string option \<Rightarrow> string \<Rightarrow> string" where
  "or_else p d = (case p of None \<Rightarrow> d | Some s \<Rightarrow> if s = [] then d else s)"

text \<open>
  The handler answers with a redirect: \<open>ErrorPage m\<close> is
  \<^verbatim>\<open>/error.html?error=\<close> followed by \<^verbatim>\<open>encodeURIComponent(m)\<close>, \<open>SuccessPage\<close> is
  \<^verbatim>\<open>/success.html\<close> with its parameters.
\<close>

record success_params =
  sp_userId :: jsval
  sp_instagramUsername :: jsval
  sp_instagramAccountId :: jsval
  sp_permissions :: string
  sp_expiresIn :: jsval

datatype redirect = ErrorPage string | SuccessPage success_params

datatype net_call =
    CallExchangeCodeForToken
  | CallExchangeForLongLivedToken
  | CallGetInstagramUser
  | CallGetFacebookPages
  | CallGetInstagramBusinessAccount

text \<open>
  The loop over the pages stops at the first page that has a linked account. It
  returns \<^verbatim>\<open>instagramAccountId\<close>, \<^verbatim>\<open>instagramUsername\<close> and
  \<^verbatim>\<open>pageAccessToken\<close>, all \<^verbatim>\<open>null\<close> when no page has one, and the requests it
  made.
\<close>

fun find_instagram_account ::
  "network \<Rightarrow> page list \<Rightarrow> (string + jsval \<times> jsval \<times> jsval) \<times> net_call list" where
  "find_instagram_account net [] = (Inr (JNull, JNull, JNull), [])"
| "find_instagram_account net (p # ps) =
     (case instagram_business_account p of
        None \<Rightarrow> find_instagram_account net ps
      | Some acct \<Rightarrow>
          (case getInstagramBusinessAccount net (page_access_token p) acct of
             Inl m \<Rightarrow> (Inl m, [CallGetInstagramBusinessAccount])
           | Inr igAccount \<Rightarrow>
               (Inr (acct, username igAccount, page_access_token p),
                [CallGetInstagramBusinessAccount])))"

text \<open>The \<^verbatim>\<open>catch\<close> of the handler: \<^verbatim>\<open>error.message || '...'\<close>.\<close>

definition caught :: "string \<Rightarrow> redirect" where
  "caught m = ErrorPage (if m = [] then ''Failed to complete Instagram connection'' else m)"

text \<open>
  The handler after the state has been validated. The result is the redirect, the
  requests sent in order, and the server's state. \<open>now\<close> and \<open>created\<close> are the
  two clock readings of \<open>saveToken\<close>.
\<close>

definition exchange_and_store ::
  "network \<Rightarrow> int \<Rightarrow> int \<Rightarrow> string \<Rightarrow> server \<Rightarrow> redirect \<times> net_call list \<times> server" where
  "exchange_and_store net now created c sys =
     (case exchangeCodeForToken net c of
        Inl m \<Rightarrow> (caught m, [CallExchangeCodeForToken], sys)
      | Inr shortLivedTokenData \<Rightarrow>
     (case exchangeForLongLivedToken net (access_token shortLivedTokenData) of
        Inl m \<Rightarrow> (caught m, [CallExchangeCodeForToken, CallExchangeForLongLivedToken], sys)
      | Inr longLivedTokenData \<Rightarrow>
     (case getInstagramUser net (access_token longLivedTokenData) of
        Inl m \<Rightarrow> (caught m, [CallExchangeCodeForToken, CallExchangeForLongLivedToken,
                              CallGetInstagramUser], sys)
      | Inr userInfo \<Rightarrow>
     (case getFacebookPages net (access_token longLivedTokenData) of
        Inl m \<Rightarrow> (caught m, [CallExchangeCodeForToken, CallExchangeForLongLivedToken,
                              CallGetInstagramUser, CallGetFacebookPages], sys)
      | Inr pages \<Rightarrow>
     (case find_instagram_account net pages of
        (Inl m, calls) \<Rightarrow>
           (caught m, [CallExchangeCodeForToken, CallExchangeForLongLivedToken,
                       CallGetInstagramUser, CallGetFacebookPages] @ calls, sys)
      | (Inr (igAccountId, igUsername, pageToken), calls) \<Rightarrow>
           (SuccessPage \<lparr> sp_userId = user_id userInfo,
                          sp_instagramUsername = js_or igUsername (JStr ''Not connected''),
                          sp_instagramAccountId = js_or igAccountId (JStr ''none''),
                          sp_permissions = ''instagram_business_basic,instagram_business_manage_messages,instagram_business_manage_comments,instagram_business_content_publish'',
                          sp_expiresIn = expires_in longLivedTokenData \<rparr>,
            [CallExchangeCodeForToken, CallExchangeForLongLivedToken,
             CallGetInstagramUser, CallGetFacebookPages] @ calls,
            sys\<lparr> tokenStore := snd (saveToken now created (user_id userInfo)
                     [(''accessToken'', access_token longLivedTokenData),
                      (''tokenType'', js_or (token_type longLivedTokenData) (JStr ''bearer'')),
                      (''expiresIn'', expires_in longLivedTokenData),
                      (''permissions'', JArr []),
                      (''instagramUserId'', user_id userInfo),
                      (''instagramAccountId'', igAccountId),
                      (''instagramUsername'', igUsername),
                      (''pageAccessToken'', pageToken)]
                     (tokenStore sys)) \<rparr>))))))"

text \<open>
  \<^verbatim>\<open>GET /auth/instagram/callback\<close>. \<open>vnow\<close> is the clock reading of
  \<open>validateState\<close>.
\<close>

definition callback ::
  "network \<Rightarrow> int \<Rightarrow> int \<Rightarrow> int \<Rightarrow> query \<Rightarrow> server \<Rightarrow> redirect \<times> net_call list \<times> server" where
  "callback net vnow now created q sys =
     (if given (error q) then
        (ErrorPage (or_else (error_description q)
                     (or_else (error_reason q) ''Authorization failed'')), [], sys)
      else case (code q, state q) of
        (Some c, Some s) \<Rightarrow>
          if c = [] \<or> s = [] then (ErrorPage ''Invalid callback parameters'', [], sys)
          else (case validateState vnow s (stateStore sys) of
                  (False, ss) \<Rightarrow>
                     (ErrorPage ''Security validation failed'', [], sys\<lparr> stateStore := ss \<rparr>)
                | (True, ss) \<Rightarrow>
                     exchange_and_store net now created c (sys\<lparr> stateStore := ss \<rparr>))
      | _ \<Rightarrow> (ErrorPage ''Invalid callback parameters'', [], sys))"

section \<open>Notions used by the properties\<close>

text \<open>
  A credential record is paired when the linked account id and the page access
  token are both \<^verbatim>\<open>null\<close> or both not \<^verbatim>\<open>null\<close>.
\<close>

definition paired :: "credential \<Rightarrow> bool" where
  "paired r = ((instagramAccountId r = JNull) = (pageAccessToken r = JNull))"

text \<open>
  A page is complete when it has no linked account, or has one with a truthy id
  and comes with a truthy access token.
\<close>

definition linked_page_complete :: "page \<Rightarrow> bool" where
  "linked_page_complete p =
     (case instagram_business_account p of
        None \<Rightarrow> True
      | Some acct \<Rightarrow> truthy acct \<and> truthy (page_access_token p))"

text \<open>
  The registry as \<open>generateState\<close> fills it: keys are not empty and timestamps
  are not \<open>0\<close>.
\<close>

definition registry_ok :: "stateStore \<Rightarrow> bool" where
  "registry_ok ss = (\<forall>(t, timestamp) \<in> set ss. t \<noteq> [] \<and> timestamp \<noteq> 0)"

text \<open>
  A network for the examples: every request succeeds, the user is \<^verbatim>\<open>42\<close>, and
  the pages are \<open>ps\<close>.
\<close>

definition stub_network :: "page list \<Rightarrow> network" where
  "stub_network ps =
     \<lparr> http_token = (\<lambda>c. Inr \<lparr> access_token = JStr ''A'', token_type = JStr ''bearer'',
                                  expires_in = JNum (Dbl 3600) \<rparr>),
       http_long_lived_token = (\<lambda>t. Inr \<lparr> access_token = JStr ''B'', token_type = JStr ''bearer'',
                                  expires_in = JNum (Dbl 5184000) \<rparr>),
       http_me = (\<lambda>t. Inr \<lparr> user_id = JStr ''42'', user_name = JStr ''Ann'' \<rparr>),
       http_accounts = (\<lambda>t. Inr (Some ps)),
       http_ig_account = (\<lambda>t a. Inr \<lparr> username = JStr ''shop'' \<rparr>) \<rparr>"

section \<open>Properties of the state registry\<close>

lemma map_of_delete_same: "map_of (AList.delete k al) k = None"
  by (simp add: AList.delete_conv')

lemma map_of_update_same: "map_of (AList.update k v al) k = Some v"
  by (simp add: AList.update_conv')

text \<open>
  C1. A token just issued validates once and only once. The token \<open>uuid\<close> is what
  \<^verbatim>\<open>uuidv4()\<close> returned (never the empty string), \<open>now\<close> is the clock at issue
  (not the epoch itself, where the stored timestamp \<open>0\<close> would read as absent),
  \<open>now'\<close> the clock at the first validation, at most ten minutes later, and
  \<open>now''\<close> the clock at the second one, at any time. The first validation
  returns true and removes the entry, the second returns false.
\<close>

theorem generate_validate_once:
  assumes "uuid \<noteq> []" and "now \<noteq> 0" and "now' - now \<le> STATE_EXPIRATION_MS"
  shows "(case generateState uuid now ss of (t, s1) \<Rightarrow>
          case validateState now' t s1 of (r1, s2) \<Rightarrow>
          case validateState now'' t s2 of (r2, s3) \<Rightarrow>
            r1 = True \<and> r2 = False \<and> map_of s2 t = None \<and> s3 = s2)"
proof -
  have first: "validateState now' uuid (AList.update uuid now ss) = (True, AList.delete uuid ss)"
    using assms
    by (simp add: validateState_def map_of_update_same AList.delete_update_same)
  have second: "validateState now'' uuid (AList.delete uuid ss) = (False, AList.delete uuid ss)"
    using assms(1) by (simp add: validateState_def map_of_delete_same)
  from first second show ?thesis
    by (simp add: generateState_def map_of_delete_same)
qed

theorem generate_validate_once_witness:
  "(case generateState ''u-1'' 1700000000000 [(''u-0'', 1699999999000)] of (t, s1) \<Rightarrow>
    case validateState 1700000000500 t s1 of (r1, s2) \<Rightarrow>
    case validateState 1700000000600 t s2 of (r2, s3) \<Rightarrow>
      r1 = True \<and> r2 = False \<and> map_of s2 t = None \<and> s3 = s2)
   \<and> ''u-1'' \<noteq> [] \<and> (1700000000000::int) \<noteq> 0
   \<and> (1700000000500::int) - 1700000000000 \<le> STATE_EXPIRATION_MS"
  using generate_validate_once [where uuid = "''u-1''" and now = 1700000000000
      and now' = 1700000000500 and ss = "[(''u-0'', 1699999999000)]" and now'' = 1700000000600]
  by (simp add: STATE_EXPIRATION_MS_def)

text \<open>
  C4. A token of the registry (a non-empty key with a timestamp other than \<open>0\<close>,
  as every entry written by \<open>generateState\<close> is) that is validated more than ten
  minutes after its issue is refused, and the registry has no entry for it
  afterwards.
\<close>

theorem validate_expired_consumes:
  assumes "map_of ss t = Some timestamp" and "t \<noteq> []" and "timestamp \<noteq> 0"
    and "now - timestamp > STATE_EXPIRATION_MS"
  shows "fst (validateState now t ss) = False
       \<and> map_of (snd (validateState now t ss)) t = None
       \<and> t \<notin> fst ` set (snd (validateState now t ss))"
  using assms
  by (simp add: validateState_def map_of_delete_same AList.delete_notin_dom)

theorem validate_expired_consumes_witness:
  "fst (validateState 1700000600001 ''u-1'' [(''u-0'', 1699999999000), (''u-1'', 1700000000000)]) = False
   \<and> map_of (snd (validateState 1700000600001 ''u-1''
        [(''u-0'', 1699999999000), (''u-1'', 1700000000000)])) ''u-1'' = None
   \<and> ''u-1'' \<notin> fst ` set (snd (validateState 1700000600001 ''u-1''
        [(''u-0'', 1699999999000), (''u-1'', 1700000000000)]))"
  using validate_expired_consumes [where ss = "[(''u-0'', 1699999999000), (''u-1'', 1700000000000)]"
      and t = "''u-1''" and timestamp = 1700000000000 and now = 1700000600001]
  by (simp add: STATE_EXPIRATION_MS_def)

text \<open>
  C9. The empty token and a token the registry does not hold are both refused,
  at any time and in any registry, and the registry is left as it was. The
  model of \<open>validateState\<close> is a total function with no failure branch: the
  source has no statement that can throw on a string.
\<close>

theorem validate_empty_unknown:
  "validateState now [] ss = (False, ss)
   \<and> (map_of ss ''unknown'' = None \<longrightarrow> validateState now ''unknown'' ss = (False, ss))
   \<and> (map_of ss t = None \<longrightarrow> validateState now t ss = (False, ss))"
  by (simp add: validateState_def)

theorem validate_empty_unknown_witness:
  "validateState 1700000000000 [] [(''u-0'', 1699999999000)] = (False, [(''u-0'', 1699999999000)])
   \<and> map_of [(''u-0'', 1699999999000::int)] ''unknown'' = None
   \<and> validateState 1700000000000 ''unknown'' [(''u-0'', 1699999999000)]
       = (False, [(''u-0'', 1699999999000)])
   \<and> map_of [(''u-0'', 1699999999000::int)] ''u-7'' = None
   \<and> validateState 1700000000000 ''u-7'' [(''u-0'', 1699999999000)]
       = (False, [(''u-0'', 1699999999000)])"
  using validate_empty_unknown [where now = 1700000000000
      and ss = "[(''u-0'', 1699999999000)]" and t = "''u-7''"]
  by simp

text \<open>
  The registry keeps its shape: no operation writes an empty key or a timestamp
  \<open>0\<close>, as long as the clock is not at the epoch and the token is not empty.
\<close>

lemma set_delete_subset: "set (AList.delete k al) \<subseteq> set al"
  by (auto simp: AList.delete_eq)

lemma registry_ok_delete: "registry_ok ss \<Longrightarrow> registry_ok (AList.delete k ss)"
  using set_delete_subset [of k ss] by (auto simp: registry_ok_def)

lemma set_update_subset: "set (AList.update k v al) \<subseteq> insert (k, v) (set al)"
  by (induction al) auto

lemma registry_ok_empty: "registry_ok []"
  by (simp add: registry_ok_def)

lemma registry_ok_generateState:
  assumes "uuid \<noteq> []" and "now \<noteq> 0" and "registry_ok ss"
  shows "registry_ok (snd (generateState uuid now ss))"
  using assms set_update_subset [of uuid now ss]
  by (auto simp: registry_ok_def generateState_def)

lemma registry_ok_validateState:
  "registry_ok ss \<Longrightarrow> registry_ok (snd (validateState now t ss))"
  by (auto simp: validateState_def registry_ok_delete split: option.splits)

lemma registry_ok_sweep_fold:
  "registry_ok m \<Longrightarrow>
   registry_ok (fold (\<lambda>(state, timestamp) m.
       if now - timestamp > STATE_EXPIRATION_MS then AList.delete state m else m) xs m)"
  by (induction xs arbitrary: m) (auto simp: registry_ok_delete)

lemma registry_ok_cleanupExpiredStates:
  "registry_ok ss \<Longrightarrow> registry_ok (cleanupExpiredStates now ss)"
  by (simp add: cleanupExpiredStates_def registry_ok_sweep_fold)

section \<open>Properties of the numbers\<close>

text \<open>Whole numbers up to \<open>2 ^ 53\<close> in size are doubles: rounding leaves them alone.\<close>

lemma round_half_even_of_int: "round_half_even (of_int j) = j"
  by (simp add: round_half_even_def)

lemma ilog2_of_int:
  assumes "0 < n"
  shows "ilog2 (of_int n) = bitlen n - 1"
proof -
  from bitlen_bounds [OF assms] have "2 ^ nat (bitlen n - 1) \<le> n" by simp
  then have "(of_int (2 ^ nat (bitlen n - 1)) :: rat) \<le> of_int n"
    by (simp only: of_int_le_iff)
  moreover have "1 \<le> bitlen n"
    using assms bitlen_eq_zero_iff [of n] bitlen_nonneg [of n] by linarith
  ultimately have "(2::rat) powi (bitlen n - 1) \<le> of_int n"
    by (simp add: power_int_def)
  moreover have "bitlen 1 = 1"
    by (simp add: bitlen_alt_def)
  ultimately show ?thesis
    by (simp add: ilog2_def)
qed

lemma whole_on_grid:
  assumes "0 < n" and "n \<le> 2 ^ 53"
  shows "\<exists>j. (of_int n :: rat) / 2 powi (ilog2 (of_int n) - 52) = of_int j"
proof -
  define e where "e = bitlen n - 1"
  have e0: "0 \<le> e"
    using assms(1) bitlen_eq_zero_iff [of n] bitlen_nonneg [of n] by (simp add: e_def)
  from bitlen_bounds [OF assms(1)] have low: "2 ^ nat e \<le> n"
    by (simp add: e_def)
  with assms(2) have le: "(2::int) ^ nat e \<le> 2 ^ 53" by linarith
  have "nat e \<le> 53"
  proof (rule power_le_imp_le_exp [of "2::int"])
    show "1 < (2::int)" by simp
    show "(2::int) ^ nat e \<le> 2 ^ 53" by (fact le)
  qed
  then have e53: "e \<le> 53"
    using e0 by simp
  have il: "ilog2 (of_int n) = e"
    by (simp add: ilog2_of_int [OF assms(1)] e_def)
  have "\<exists>j. (of_int n :: rat) / 2 powi (e - 52) = of_int j"
  proof (cases "e \<le> 52")
    case True
    then have "(2::rat) powi (e - 52) = inverse (2 ^ nat (52 - e))"
      by (simp add: power_int_def power_one_over inverse_eq_divide)
    then have "(of_int n :: rat) / 2 powi (e - 52) = of_int (n * 2 ^ nat (52 - e))"
      by (simp add: field_simps)
    then show ?thesis ..
  next
    case False
    with e53 have e: "e = 53" by simp
    with low assms(2) have n: "n = 2 ^ 53" by simp
    have "(of_int n :: rat) / 2 powi (e - 52) = of_int (2 ^ 52)"
      by (simp add: e n)
    then show ?thesis ..
  qed
  with il show ?thesis by simp
qed

lemma fl_pos_of_int:
  assumes "0 < n" and "n \<le> 2 ^ 53"
  shows "fl_pos (of_int n) = Dbl (of_int n)"
proof -
  define e where "e = ilog2 (of_int n)"
  have e0: "0 \<le> e"
    using assms(1) bitlen_eq_zero_iff [of n] bitlen_nonneg [of n]
    by (simp add: e_def ilog2_of_int)
  from whole_on_grid [OF assms] obtain j where j: "(of_int n :: rat) / 2 powi (e - 52) = of_int j"
    by (auto simp: e_def)
  have q0: "(2::rat) powi (e - 52) \<noteq> 0"
    by simp
  from j q0 have jq: "of_int j * 2 powi (e - 52) = (of_int n :: rat)"
    by (simp add: field_simps)
  have "(of_int n :: rat) \<le> of_int (2 ^ 53)"
    using assms(2) by (simp only: of_int_le_iff)
  then have small: "\<not> (2::rat) powi 1024 \<le> of_int n"
    by (simp add: power_int_def)
  have "max e (- 1022) = e"
    using e0 by simp
  with j jq small show ?thesis
    by (simp add: fl_pos_def Let_def round_half_even_of_int flip: e_def)
qed

lemma fl_of_int:
  assumes "\<bar>n\<bar> \<le> 2 ^ 53"
  shows "fl (of_int n) = Dbl (of_int n)"
proof (cases "n = 0")
  case True
  then show ?thesis by (simp add: fl_def)
next
  case False
  show ?thesis
  proof (cases "0 < n")
    case True
    with assms have "n \<le> 2 ^ 53" by simp
    from fl_pos_of_int [OF True this] True show ?thesis
      by (simp add: fl_def)
  next
    case neg: False
    with False have "0 < - n" by simp
    moreover from assms have "- n \<le> 2 ^ 53" by simp
    ultimately have "fl_pos (of_int (- n)) = Dbl (of_int (- n))"
      by (rule fl_pos_of_int)
    with neg False show ?thesis
      by (simp add: fl_def num_neg_def)
  qed
qed

lemma fl_whole:
  assumes "x \<in> \<int>" and "\<bar>x\<bar> \<le> 9007199254740992"
  shows "fl x = Dbl x"
proof -
  from assms(1) obtain n where x: "x = of_int n" by (rule Ints_cases)
  with assms(2) have "(of_int \<bar>n\<bar> :: rat) \<le> of_int 9007199254740992" by simp
  then have "\<bar>n\<bar> \<le> 9007199254740992" by (simp only: of_int_le_iff)
  then have "\<bar>n\<bar> \<le> 2 ^ 53" by simp
  from fl_of_int [OF this] x show ?thesis by simp
qed

lemma ms_add_whole:
  assumes "\<bar>t + k\<bar> \<le> 9007199254740992"
  shows "num_add (ms t) (ms k) = ms (t + k)"
proof -
  have "fl (of_int (t + k)) = Dbl (of_int (t + k))"
    using assms by (intro fl_of_int) simp
  then show ?thesis by (simp add: ms_def)
qed

lemma ms_mul_whole:
  assumes "\<bar>a * b\<bar> \<le> 9007199254740992"
  shows "num_mul (ms a) (ms b) = ms (a * b)"
proof -
  have "fl (of_int (a * b)) = Dbl (of_int (a * b))"
    using assms by (intro fl_of_int) simp
  then show ?thesis by (simp add: ms_def)
qed

text \<open>The binary exponent is the right one.\<close>

lemma powi_bitlen:
  assumes "0 < a"
  shows "(2::rat) powi (bitlen a - 1) \<le> of_int a" and "of_int a < (2::rat) powi bitlen a"
proof -
  have one: "1 \<le> bitlen a"
    using assms bitlen_eq_zero_iff [of a] bitlen_nonneg [of a] by linarith
  from bitlen_bounds [OF assms] have lo: "2 ^ nat (bitlen a - 1) \<le> a" and hi: "a < 2 ^ nat (bitlen a)"
    by simp_all
  from lo have "(of_int (2 ^ nat (bitlen a - 1)) :: rat) \<le> of_int a"
    by (simp only: of_int_le_iff)
  with one show "(2::rat) powi (bitlen a - 1) \<le> of_int a"
    by (simp add: power_int_def)
  from hi have "(of_int a :: rat) < of_int (2 ^ nat (bitlen a))"
    by (simp only: of_int_less_iff)
  with one show "of_int a < (2::rat) powi bitlen a"
    by (simp add: power_int_def)
qed

lemma ilog2_bounds:
  assumes "0 < x"
  shows "2 powi ilog2 x \<le> x" and "x < 2 powi (ilog2 x + 1)"
proof -
  obtain a b where q: "quotient_of x = (a, b)"
    by (cases "quotient_of x")
  then have b: "0 < b" and x: "x = of_int a / of_int b"
    by (simp_all add: quotient_of_denom_pos quotient_of_div)
  with assms have a: "0 < a"
    by (simp add: zero_less_divide_iff)
  define e where "e = bitlen a - bitlen b"
  have il: "ilog2 x = (if 2 powi e \<le> x then e else e - 1)"
    by (simp add: ilog2_def q e_def Let_def)
  have bpos: "(0::rat) < of_int b" using b by simp
  have up: "x < 2 powi (e + 1)"
  proof -
    have "x * of_int b = of_int a" using x bpos by simp
    also have "\<dots> < 2 powi bitlen a" by (rule powi_bitlen(2) [OF a])
    also have "\<dots> = 2 powi (e + 1) * 2 powi (bitlen b - 1)"
      by (simp add: e_def flip: power_int_add)
    also have "\<dots> \<le> 2 powi (e + 1) * of_int b"
      using powi_bitlen(1) [OF b] by (intro mult_left_mono) simp_all
    finally show ?thesis using bpos by simp
  qed
  have low: "2 powi (e - 1) \<le> x"
  proof -
    have "(2::rat) powi (e - 1) * of_int b \<le> 2 powi (e - 1) * 2 powi bitlen b"
      using powi_bitlen(2) [OF b] by (intro mult_left_mono) simp_all
    also have "\<dots> = 2 powi (bitlen a - 1)"
      by (simp add: e_def flip: power_int_add)
    also have "\<dots> \<le> of_int a" by (rule powi_bitlen(1) [OF a])
    also have "\<dots> = x * of_int b" using x bpos by simp
    finally show ?thesis using bpos by simp
  qed
  show "2 powi ilog2 x \<le> x"
    using il low by (simp split: if_splits)
  show "x < 2 powi (ilog2 x + 1)"
    using il up by (auto split: if_splits)
qed

lemma powi_two_less_iff: "(2::rat) powi m < 2 powi n \<longleftrightarrow> m < n"
proof
  assume less: "(2::rat) powi m < 2 powi n"
  show "m < n"
  proof (rule ccontr)
    assume "\<not> m < n"
    then have "n \<le> m" by simp
    then have "(2::rat) powi n \<le> 2 powi m"
      by (rule power_int_increasing) simp
    with less show False by simp
  qed
next
  assume "m < n"
  then show "(2::rat) powi m < 2 powi n"
    by (rule power_int_strict_increasing) simp
qed

lemma floor_numeral_div: "\<lfloor>numeral a / numeral b :: rat\<rfloor> = numeral a div numeral b"
  using floor_divide_of_int_eq [of "numeral a" "numeral b", where ?'a = rat] by simp

lemma ilog2_unique:
  assumes "0 < x" and "2 powi e \<le> x" and "x < 2 powi (e + 1)"
  shows "ilog2 x = e"
proof -
  from ilog2_bounds [OF assms(1)] assms(2,3)
  have "(2::rat) powi ilog2 x < 2 powi (e + 1)" and "(2::rat) powi e < 2 powi (ilog2 x + 1)"
    by simp_all
  then have "ilog2 x < e + 1" and "e < ilog2 x + 1"
    by (simp_all only: powi_two_less_iff)
  then show ?thesis by simp
qed

lemma ilog2_mono:
  assumes "0 < x" and "x \<le> y"
  shows "ilog2 x \<le> ilog2 y"
proof -
  from assms have y: "0 < y" by simp
  have "(2::rat) powi ilog2 x \<le> x" by (rule ilog2_bounds(1) [OF assms(1)])
  also have "\<dots> \<le> y" by (fact assms(2))
  also have "\<dots> < 2 powi (ilog2 y + 1)" by (rule ilog2_bounds(2) [OF y])
  finally have "ilog2 x < ilog2 y + 1"
    by (simp only: powi_two_less_iff)
  then show ?thesis by simp
qed

text \<open>
  Rounding never takes a result below a whole number that the exact value has
  reached: a sum \<open>t + y\<close> with \<open>y\<close> not negative rounds to \<open>t\<close> at least.
\<close>

lemma round_half_even_ge:
  assumes "of_int j \<le> y"
  shows "j \<le> round_half_even y"
proof -
  from assms have "j \<le> \<lfloor>y\<rfloor>" by (simp add: le_floor_iff)
  then show ?thesis
    by (simp add: round_half_even_def Let_def)
qed

lemma fl_pos_nonneg:
  assumes "0 < z"
  shows "fl_pos z = PosInf \<or> (\<exists>y. fl_pos z = Dbl y \<and> 0 \<le> y)"
proof -
  define q :: rat where "q = 2 powi (max (ilog2 z) (- 1022) - 52)"
  have q: "0 < q" by (simp add: q_def)
  with assms have "(of_int 0 :: rat) \<le> z / q" by simp
  then have "0 \<le> round_half_even (z / q)" by (rule round_half_even_ge)
  with q have "0 \<le> of_int (round_half_even (z / q)) * q" by simp
  then show ?thesis
    by (simp add: fl_pos_def Let_def q_def)
qed

lemma fl_pos_ge:
  assumes "0 < t" and "t \<le> 2 ^ 53" and "of_int t \<le> z"
  shows "\<not> num_gt (Dbl (of_int t)) (fl_pos z)"
proof -
  have tpos: "(0::rat) < of_int t" using assms(1) by simp
  with assms(3) have z: "0 < z" by simp
  define e where "e = ilog2 z"
  define q :: rat where "q = 2 powi (e - 52)"
  have q: "0 < q" by (simp add: q_def)
  have et: "ilog2 (of_int t) \<le> e"
    unfolding e_def by (rule ilog2_mono [OF tpos assms(3)])
  have "0 \<le> ilog2 (of_int t)"
    using assms(1) bitlen_eq_zero_iff [of t] bitlen_nonneg [of t]
    by (simp add: ilog2_of_int)
  with et have emax: "max e (- 1022) = e" by simp
  have "\<exists>j. of_int j \<le> z / q \<and> of_int t \<le> of_int j * q"
  proof (cases "ilog2 (of_int t) = e")
    case True
    with whole_on_grid [OF assms(1,2)] obtain j where j: "of_int t / q = of_int j"
      by (auto simp: q_def)
    from assms(3) q have "of_int t / q \<le> z / q"
      by (simp add: divide_right_mono)
    with j have "of_int j \<le> z / q" by simp
    moreover from j q have "of_int j * q = of_int t" by (simp add: field_simps)
    ultimately show ?thesis by auto
  next
    case False
    with et have lt: "ilog2 (of_int t) + 1 \<le> e" by simp
    have split: "(2::rat) powi e = 2 powi 52 * q"
      using power_int_add [of "2::rat" 52 "e - 52"] by (simp add: q_def)
    then have "(2::rat) powi 52 * q = 2 powi e" by simp
    moreover have "2 powi e \<le> z"
      unfolding e_def by (rule ilog2_bounds(1) [OF z])
    ultimately have "2 powi 52 * q \<le> z" by simp
    with q have "(2::rat) powi 52 \<le> z / q" by (simp add: pos_le_divide_eq)
    then have a: "of_int (2 ^ 52) \<le> z / q" by simp
    have "of_int t < (2::rat) powi (ilog2 (of_int t) + 1)"
      by (rule ilog2_bounds(2) [OF tpos])
    also have "\<dots> \<le> 2 powi e"
      using lt by (intro power_int_increasing) simp_all
    also have "\<dots> = of_int (2 ^ 52) * q"
      using split by simp
    finally have "of_int t \<le> of_int (2 ^ 52) * q" by simp
    with a show ?thesis by blast
  qed
  then obtain j where j1: "of_int j \<le> z / q" and j2: "of_int t \<le> of_int j * q"
    by blast
  from j1 have "j \<le> round_half_even (z / q)" by (rule round_half_even_ge)
  then have "(of_int j :: rat) \<le> of_int (round_half_even (z / q))" by simp
  with q have "of_int j * q \<le> of_int (round_half_even (z / q)) * q"
    by (simp add: mult_right_mono)
  with j2 have "of_int t \<le> of_int (round_half_even (z / q)) * q" by simp
  then have "\<not> of_int (round_half_even (z / 2 powi (ilog2 z - 52))) * 2 powi (ilog2 z - 52)
      < (of_int t :: rat)"
    by (simp add: q_def e_def)
  moreover from emax have "max (ilog2 z) (- 1022) = ilog2 z"
    by (simp add: e_def)
  ultimately show ?thesis
    by (simp add: fl_pos_def Let_def)
qed

lemma fl_ge:
  assumes "0 \<le> t" and "t \<le> 2 ^ 53" and "of_int t \<le> z"
  shows "\<not> num_gt (Dbl (of_int t)) (fl z)"
proof (cases "z = 0")
  case True
  with assms(1,3) show ?thesis by (simp add: fl_def)
next
  case False
  from assms(1) have "(0::rat) \<le> of_int t" by simp
  with assms(3) have "0 \<le> z" by simp
  with False have z: "0 < z" by simp
  show ?thesis
  proof (cases "t = 0")
    case True
    from fl_pos_nonneg [OF z] True z show ?thesis
      by (auto simp: fl_def)
  next
    case False
    with assms(1) have "0 < t" by simp
    from fl_pos_ge [OF this assms(2,3)] z show ?thesis
      by (simp add: fl_def)
  qed
qed

text \<open>
  Beyond \<open>2 ^ 53\<close> sums are rounded: the doubles around \<open>10 ^ 18\<close> are 128 apart.
\<close>

lemma ilog2_example: "ilog2 1000001700000000001 = 59"
  by (rule ilog2_unique) simp_all

lemma fl_example: "fl 1000001700000000001 = Dbl 1000001700000000000"
  by (simp add: fl_def fl_pos_def ilog2_example round_half_even_def Let_def floor_numeral_div)

lemma ilog2_example_exact: "ilog2 1000000000000000000 = 59"
  by (rule ilog2_unique) simp_all

lemma fl_example_exact: "fl 1000000000000000000 = Dbl 1000000000000000000"
  by (simp add: fl_def fl_pos_def ilog2_example_exact round_half_even_def Let_def floor_numeral_div)

text \<open>
  A fraction of a second is a number above zero like any other:
  \<open>1 / 1024\<close> seconds are \<open>125 / 128\<close> milliseconds.
\<close>

lemma ilog2_fraction: "ilog2 (125 / 128) = - 1"
  by (rule ilog2_unique) (simp_all add: power_int_minus)

lemma fl_fraction: "fl (125 / 128) = Dbl (125 / 128)"
  by (simp add: fl_def fl_pos_def ilog2_fraction round_half_even_def Let_def power_int_minus
      floor_numeral_div)

lemma ilog2_fraction_sum: "ilog2 (217600000000125 / 128) = 40"
  by (rule ilog2_unique) simp_all

lemma fl_fraction_sum: "fl (217600000000125 / 128) = Dbl (217600000000125 / 128)"
  by (simp add: fl_def fl_pos_def ilog2_fraction_sum round_half_even_def Let_def power_int_minus
      floor_numeral_div)

section \<open>Properties of the token store\<close>

lemma expiresInSeconds_positive: "num_gt n (Dbl 0) \<Longrightarrow> expiresInSeconds (JNum n) = n"
  by (simp add: expiresInSeconds_def)

lemma expiresInSeconds_default:
  "(\<And>n. x = JNum n \<Longrightarrow> \<not> num_gt n (Dbl 0)) \<Longrightarrow> expiresInSeconds x = Dbl 5184000"
  by (cases x) (auto simp: expiresInSeconds_def)

lemma expiresInSeconds_not_number:
  "typeof x \<noteq> ''number'' \<Longrightarrow> expiresInSeconds x = Dbl 5184000"
  by (cases x) (auto simp: expiresInSeconds_def)

lemma expiresInSeconds_gt_zero: "num_gt (expiresInSeconds x) (Dbl 0)"
  by (cases x) (auto simp: expiresInSeconds_def)

lemma saveToken_store:
  "snd (saveToken now created u td ts) = AList.update u (fst (saveToken now created u td ts)) ts"
  by (simp add: saveToken_def Let_def)

lemma saveToken_expiresAt:
  "expiresAt (fst (saveToken now created u td ts))
     = num_add (ms now) (num_mul (expiresInSeconds (get_prop td ''expiresIn'')) (Dbl 1000))"
  by (simp add: saveToken_def Let_def)

lemma saveToken_fields:
  "accessToken (fst (saveToken now created u td ts)) = get_prop td ''accessToken''"
  "tokenType (fst (saveToken now created u td ts)) = js_or (get_prop td ''tokenType'') (JStr ''bearer'')"
  "permissions (fst (saveToken now created u td ts)) = js_or (get_prop td ''permissions'') (JArr [])"
  "instagramUserId (fst (saveToken now created u td ts)) = get_prop td ''instagramUserId''"
  "instagramAccountId (fst (saveToken now created u td ts)) = js_or (get_prop td ''instagramAccountId'') JNull"
  "instagramUsername (fst (saveToken now created u td ts)) = js_or (get_prop td ''instagramUsername'') JNull"
  "pageAccessToken (fst (saveToken now created u td ts)) = js_or (get_prop td ''pageAccessToken'') JNull"
  "createdAt (fst (saveToken now created u td ts)) = created"
  by (simp_all add: saveToken_def Let_def)

text \<open>
  The arithmetic of \<open>saveToken\<close> is exact for the default and for a whole number
  of seconds, as long as the result stays within \<open>2 ^ 53\<close>; and whatever the
  duration, the expiry never comes out before the save time.
\<close>

lemma expiry_default_exact:
  assumes "\<bar>now\<bar> \<le> 8640000000000000"
  shows "num_add (ms now) (num_mul (Dbl 5184000) (Dbl 1000)) = ms (now + 5184000 * 1000)"
proof -
  have "num_mul (Dbl 5184000) (Dbl 1000) = ms 5184000000"
    by (simp add: fl_whole ms_def)
  moreover have "num_add (ms now) (ms 5184000000) = ms (now + 5184000000)"
    using assms by (intro ms_add_whole) simp
  ultimately show ?thesis by simp
qed

lemma expiry_whole_exact:
  assumes "\<bar>k * 1000\<bar> \<le> 2 ^ 53" and "\<bar>now + k * 1000\<bar> \<le> 2 ^ 53"
  shows "num_add (ms now) (num_mul (Dbl (of_int k)) (Dbl 1000)) = ms (now + k * 1000)"
proof -
  have "num_mul (ms k) (ms 1000) = ms (k * 1000)"
    using assms(1) by (intro ms_mul_whole) simp
  then have "num_mul (Dbl (of_int k)) (Dbl 1000) = ms (k * 1000)"
    by (simp add: ms_def)
  moreover have "num_add (ms now) (ms (k * 1000)) = ms (now + k * 1000)"
    using assms(2) by (intro ms_add_whole) simp
  ultimately show ?thesis by simp
qed

lemma expiry_not_before:
  assumes "0 \<le> now" and "now \<le> 2 ^ 53" and "num_gt d (Dbl 0)"
  shows "\<not> num_gt (ms now) (num_add (ms now) (num_mul d (Dbl 1000)))"
proof (cases d)
  case (Dbl v)
  with assms(3) have v: "0 < v * 1000" by simp
  from Dbl v have prod: "num_mul d (Dbl 1000) = fl_pos (v * 1000)"
    by (simp add: fl_def)
  from fl_pos_nonneg [OF v] show ?thesis
  proof
    assume "fl_pos (v * 1000) = PosInf"
    with prod show ?thesis by (simp add: ms_def)
  next
    assume "\<exists>y. fl_pos (v * 1000) = Dbl y \<and> 0 \<le> y"
    then obtain y where y: "fl_pos (v * 1000) = Dbl y" "0 \<le> y" by blast
    then have "of_int now \<le> of_int now + y" by simp
    from fl_ge [OF assms(1,2) this] prod y show ?thesis
      by (simp add: ms_def)
  qed
next
  case PosInf
  then show ?thesis by (simp add: ms_def)
next
  case NegInf
  with assms(3) show ?thesis by simp
next
  case NaN
  with assms(3) show ?thesis by simp
qed

lemma count_key_update:
  "distinct (map fst al) \<Longrightarrow> length (filter (\<lambda>(k', v'). k' = k) (AList.update k v al)) = 1"
proof (induction al)
  case Nil
  then show ?case by simp
next
  case (Cons p al)
  show ?case
  proof (cases "fst p = k")
    case True
    with Cons.prems have "k \<notin> fst ` set al" by auto
    then have "filter (\<lambda>(k', v'). k' = k) al = []"
      by (force simp: filter_empty_conv)
    with True show ?thesis by (cases p) simp
  next
    case False
    with Cons show ?thesis by (cases p) simp
  qed
qed

text \<open>
  C3 (as amended). With the clock at or after the epoch and within the range of
  ECMAScript time values (at most 8,640,000,000,000,000 ms), \<open>saveToken\<close> followed
  by \<open>getToken\<close> for the same user, at the same clock reading or at any reading
  \<open>now'\<close> not past the new record's \<open>expiresAt\<close>, returns the record \<open>saveToken\<close>
  stored and leaves the store as it is, for every \<open>tokenData\<close>. In that record
  \<open>accessToken\<close> and \<open>instagramUserId\<close> are the supplied values; \<open>tokenType\<close>,
  \<open>permissions\<close>, \<open>instagramAccountId\<close>, \<open>instagramUsername\<close> and \<open>pageAccessToken\<close>
  are the supplied values when those are truthy and otherwise \<^verbatim>\<open>'bearer'\<close>,
  \<^verbatim>\<open>[]\<close>, \<^verbatim>\<open>null\<close>, \<^verbatim>\<open>null\<close>, \<^verbatim>\<open>null\<close>; \<open>createdAt\<close> is the save time. \<open>expiresAt\<close>
  is exactly the save time plus \<open>expiresIn\<close> seconds when \<open>expiresIn\<close> is a whole
  number above zero and that sum, in milliseconds, is at most \<open>2 ^ 53\<close>; it is
  the save time plus 5,184,000 seconds whenever \<open>expiresIn\<close> is not a number
  above zero; for every other number above zero it is the double that
  \<^verbatim>\<open>Date.now() + expiresIn * 1000\<close> rounds to.
\<close>

theorem save_then_get:
  assumes "0 \<le> now" and "now \<le> 8640000000000000"
  shows "getToken now u (snd (saveToken now created u td ts))
           = (Some (fst (saveToken now created u td ts)), snd (saveToken now created u td ts))
       \<and> (\<not> num_gt (ms now') (expiresAt (fst (saveToken now created u td ts))) \<longrightarrow>
           getToken now' u (snd (saveToken now created u td ts))
             = (Some (fst (saveToken now created u td ts)), snd (saveToken now created u td ts)))
       \<and> accessToken (fst (saveToken now created u td ts)) = get_prop td ''accessToken''
       \<and> instagramUserId (fst (saveToken now created u td ts)) = get_prop td ''instagramUserId''
       \<and> tokenType (fst (saveToken now created u td ts))
           = (if truthy (get_prop td ''tokenType'') then get_prop td ''tokenType'' else JStr ''bearer'')
       \<and> permissions (fst (saveToken now created u td ts))
           = (if truthy (get_prop td ''permissions'') then get_prop td ''permissions'' else JArr [])
       \<and> instagramAccountId (fst (saveToken now created u td ts))
           = (if truthy (get_prop td ''instagramAccountId'') then get_prop td ''instagramAccountId'' else JNull)
       \<and> instagramUsername (fst (saveToken now created u td ts))
           = (if truthy (get_prop td ''instagramUsername'') then get_prop td ''instagramUsername'' else JNull)
       \<and> pageAccessToken (fst (saveToken now created u td ts))
           = (if truthy (get_prop td ''pageAccessToken'') then get_prop td ''pageAccessToken'' else JNull)
       \<and> createdAt (fst (saveToken now created u td ts)) = created
       \<and> (\<forall>k. get_prop td ''expiresIn'' = JNum (Dbl (of_int k)) \<and> 0 < k
               \<and> now + k * 1000 \<le> 2 ^ 53 \<longrightarrow>
             expiresAt (fst (saveToken now created u td ts)) = ms (now + k * 1000))
       \<and> ((\<forall>n. get_prop td ''expiresIn'' = JNum n \<longrightarrow> \<not> num_gt n (Dbl 0)) \<longrightarrow>
             expiresAt (fst (saveToken now created u td ts)) = ms (now + 5184000 * 1000))
       \<and> (\<forall>n. get_prop td ''expiresIn'' = JNum n \<and> num_gt n (Dbl 0) \<longrightarrow>
             expiresAt (fst (saveToken now created u td ts)) = num_add (ms now) (num_mul n (Dbl 1000)))"
proof -
  let ?r = "fst (saveToken now created u td ts)"
  let ?s = "snd (saveToken now created u td ts)"
  let ?x = "get_prop td ''expiresIn''"
  have look: "map_of ?s u = Some ?r"
    by (simp add: saveToken_store map_of_update_same)
  have later: "getToken t u ?s = (Some ?r, ?s)" if "\<not> num_gt (ms t) (expiresAt ?r)" for t
    using that look by (simp add: getToken_def)
  have "now \<le> 2 ^ 53" using assms(2) by simp
  from expiry_not_before [OF assms(1) this expiresInSeconds_gt_zero]
  have "\<not> num_gt (ms now) (expiresAt ?r)"
    by (simp add: saveToken_expiresAt)
  then have at_once: "getToken now u ?s = (Some ?r, ?s)"
    by (rule later)
  have whole: "expiresAt ?r = ms (now + k * 1000)"
    if "?x = JNum (Dbl (of_int k))" "0 < k" "now + k * 1000 \<le> 2 ^ 53" for k
  proof -
    from that(2) have "num_gt (Dbl (of_int k)) (Dbl 0)" by simp
    then have "expiresInSeconds ?x = Dbl (of_int k)"
      by (simp add: that(1) expiresInSeconds_positive)
    moreover have "\<bar>k * 1000\<bar> \<le> 2 ^ 53" "\<bar>now + k * 1000\<bar> \<le> 2 ^ 53"
      using that(2,3) assms(1) by simp_all
    ultimately show ?thesis
      by (simp only: saveToken_expiresAt expiry_whole_exact)
  qed
  have dflt: "expiresAt ?r = ms (now + 5184000 * 1000)"
    if "\<forall>n. ?x = JNum n \<longrightarrow> \<not> num_gt n (Dbl 0)"
  proof -
    from that have "expiresInSeconds ?x = Dbl 5184000"
      by (intro expiresInSeconds_default) simp
    moreover have "\<bar>now\<bar> \<le> 8640000000000000" using assms by simp
    ultimately show ?thesis
      by (simp only: saveToken_expiresAt expiry_default_exact)
  qed
  have pos: "\<forall>n. ?x = JNum n \<and> num_gt n (Dbl 0) \<longrightarrow>
      expiresAt ?r = num_add (ms now) (num_mul n (Dbl 1000))"
    by (simp add: saveToken_expiresAt expiresInSeconds_positive)
  from at_once later [of now'] whole dflt pos show ?thesis
    by (simp add: saveToken_fields js_or_def)
qed

lemmas store_defs = saveToken_def getToken_def getAllTokens_def get_prop_def js_or_def
  expiresInSeconds_def Let_def ms_def fl_whole

theorem save_then_get_witness:
  "(0::int) \<le> 1700000000000 \<and> (1700000000000::int) \<le> 8640000000000000
   \<and> \<not> num_gt (ms 1700000000999) (expiresAt (fst (saveToken 1700000000000 1700000000001 ''u1''
           [(''accessToken'', JStr ''A''), (''expiresIn'', JNum (Dbl 3600))] [])))
   \<and> get_prop [(''accessToken'', JStr ''A''), (''expiresIn'', JNum (Dbl 3600))] ''expiresIn''
       = JNum (Dbl (of_int 3600))
   \<and> (1700000000000::int) + 3600 * 1000 \<le> 2 ^ 53
   \<and> fst (getToken 1700000000999 ''u1''
        (snd (saveToken 1700000000000 1700000000001 ''u1''
           [(''accessToken'', JStr ''A''), (''expiresIn'', JNum (Dbl 3600))] [])))
     = Some \<lparr> accessToken = JStr ''A'', tokenType = JStr ''bearer'', expiresAt = Dbl 1700003600000,
              permissions = JArr [], instagramUserId = JUndefined, instagramAccountId = JNull,
              instagramUsername = JNull, pageAccessToken = JNull, createdAt = 1700000000001 \<rparr>"
  using save_then_get [where now' = 1700000000999 and now = 1700000000000 and created = 1700000000001
      and u = "''u1''" and td = "[(''accessToken'', JStr ''A''), (''expiresIn'', JNum (Dbl 3600))]"
      and ts = "[]"]
  by (simp add: store_defs)

text \<open>
  C3 as stated fails: with \<^verbatim>\<open>tokenType: ''\<close> and \<^verbatim>\<open>expiresIn: '3600'\<close> the record
  read back has \<open>tokenType\<close> \<^verbatim>\<open>'bearer'\<close>, not the saved value, and expires 60
  days after the save, not 3600 seconds after it; with \<^verbatim>\<open>expiresIn: 1e15\<close>
  saved at 1700000000001 the record expires at 1000001700000000000, one
  millisecond short of the save time plus the duration; and with
  \<^verbatim>\<open>expiresIn: 1 / 1024\<close> a \<open>getToken\<close> one millisecond after the save returns
  nothing.
\<close>

theorem save_get_roundtrip_counterexample:
  "map_option tokenType (fst (getToken 1700000000000 ''u1''
       (snd (saveToken 1700000000000 1700000000000 ''u1''
          [(''accessToken'', JStr ''A''), (''tokenType'', JStr ''''), (''expiresIn'', JStr ''3600'')] []))))
     = Some (JStr ''bearer'')
   \<and> get_prop [(''accessToken'', JStr ''A''), (''tokenType'', JStr ''''), (''expiresIn'', JStr ''3600'')]
        ''tokenType'' = JStr ''''
   \<and> map_option expiresAt (fst (getToken 1700000000000 ''u1''
       (snd (saveToken 1700000000000 1700000000000 ''u1''
          [(''accessToken'', JStr ''A''), (''tokenType'', JStr ''''), (''expiresIn'', JStr ''3600'')] []))))
     = Some (ms (1700000000000 + 5184000 * 1000))
   \<and> get_prop [(''accessToken'', JStr ''A''), (''tokenType'', JStr ''''), (''expiresIn'', JStr ''3600'')]
        ''expiresIn'' = JStr ''3600''
   \<and> ms (1700000000000 + 5184000 * 1000) \<noteq> ms (1700000000000 + 3600 * 1000)
   \<and> map_option expiresAt (fst (getToken 1700000000001 ''u1''
       (snd (saveToken 1700000000001 1700000000001 ''u1''
          [(''accessToken'', JStr ''A''), (''expiresIn'', JNum (Dbl 1000000000000000))] []))))
     = Some (ms 1000001700000000000)
   \<and> ms 1000001700000000000 \<noteq> ms (1700000000001 + 1000000000000000 * 1000)
   \<and> fst (getToken 1700000000001 ''u1''
       (snd (saveToken 1700000000000 1700000000000 ''u1''
          [(''accessToken'', JStr ''A''), (''expiresIn'', JNum (Dbl (1 / 1024)))] []))) = None"
  by (simp add: store_defs fl_example fl_example_exact fl_fraction fl_fraction_sum)

text \<open>
  C5. A record whose \<open>expiresAt\<close> lies strictly before the clock reading is still
  in the store and is listed by \<open>getAllTokens\<close> with \<open>isExpired\<close> set; \<open>getToken\<close>
  for its user returns nothing and removes it, so that \<open>getAllTokens\<close>
  afterwards, at any time, does not list that user. The timer of the server
  never changes the token store.
\<close>

theorem getToken_expired_lazy:
  assumes "map_of ts u = Some r" and "num_gt (ms now) (expiresAt r)"
  shows "\<lparr> userId = u, token = r, isExpired = True \<rparr> \<in> set (getAllTokens now ts)
       \<and> fst (getToken now u ts) = None
       \<and> map_of (snd (getToken now u ts)) u = None
       \<and> u \<notin> userId ` set (getAllTokens now' (snd (getToken now u ts)))
       \<and> tokenStore (timer_tick now'' sys) = tokenStore sys"
proof -
  from assms(1) have "(u, r) \<in> set ts" by (rule map_of_SomeD)
  with assms(2) have listed: "\<lparr> userId = u, token = r, isExpired = True \<rparr> \<in> set (getAllTokens now ts)"
    by (force simp: getAllTokens_def)
  from assms have get: "getToken now u ts = (None, AList.delete u ts)"
    by (simp add: getToken_def)
  have keys: "userId ` set (getAllTokens now' al) = fst ` set al" for al :: "('a \<times> credential) list"
    by (force simp: getAllTokens_def)
  have gone: "u \<notin> userId ` set (getAllTokens now' (AList.delete u ts))"
    by (simp add: keys AList.delete_notin_dom)
  have timer: "tokenStore (timer_tick now'' sys) = tokenStore sys"
    by (simp add: timer_tick_def)
  from listed get gone timer show ?thesis
    by (simp add: map_of_delete_same)
qed

theorem getToken_expired_lazy_witness:
  "map_of (snd (saveToken 1700000000000 1700000000001 ''u1'' [(''expiresIn'', JNum (Dbl 3600))] [])) ''u1''
     = Some (fst (saveToken 1700000000000 1700000000001 ''u1'' [(''expiresIn'', JNum (Dbl 3600))] []))
   \<and> num_gt (ms 1700003600001) (expiresAt (fst (saveToken 1700000000000 1700000000001 ''u1''
        [(''expiresIn'', JNum (Dbl 3600))] [])))
   \<and> fst (getToken 1700003600001 ''u1''
        (snd (saveToken 1700000000000 1700000000001 ''u1'' [(''expiresIn'', JNum (Dbl 3600))] []))) = None
   \<and> getAllTokens 1700003600002 (snd (getToken 1700003600001 ''u1''
        (snd (saveToken 1700000000000 1700000000001 ''u1'' [(''expiresIn'', JNum (Dbl 3600))] [])))) = []
   \<and> tokenStore (timer_tick 1700003600001 \<lparr> stateStore = [(''s1'', 1700000000000)], tokenStore = [] \<rparr>) = []"
  using getToken_expired_lazy [where now = 1700003600001 and u = "''u1''"
      and ts = "snd (saveToken 1700000000000 1700000000001 ''u1'' [(''expiresIn'', JNum (Dbl 3600))] [])"
      and r = "fst (saveToken 1700000000000 1700000000001 ''u1'' [(''expiresIn'', JNum (Dbl 3600))] [])"
      and now' = 1700003600002 and now'' = 1700003600001
      and sys = "\<lparr> stateStore = [(''s1'', 1700000000000)], tokenStore = [] \<rparr>"]
  by (simp add: store_defs timer_tick_def)

text \<open>
  C7. Two calls of \<open>saveToken\<close> for the same user, on a store with at most one
  record per user, leave the store that the second call alone would have left:
  it has exactly one record for that user, the one built from the second
  call's data alone, and still at most one record per user.
\<close>

theorem saveToken_twice_overwrites:
  assumes "distinct (map fst ts)"
  shows "snd (saveToken c d u tdb (snd (saveToken a b u tda ts))) = snd (saveToken c d u tdb ts)
       \<and> fst (saveToken c d u tdb (snd (saveToken a b u tda ts))) = fst (saveToken c d u tdb ts)
       \<and> length (filter (\<lambda>(k, r). k = u)
            (snd (saveToken c d u tdb (snd (saveToken a b u tda ts))))) = 1
       \<and> map_of (snd (saveToken c d u tdb (snd (saveToken a b u tda ts)))) u
            = Some (fst (saveToken c d u tdb ts))
       \<and> distinct (map fst (snd (saveToken c d u tdb (snd (saveToken a b u tda ts)))))"
proof -
  have rec: "fst (saveToken c d u tdb (snd (saveToken a b u tda ts))) = fst (saveToken c d u tdb ts)"
    by (simp add: saveToken_def Let_def)
  have store: "snd (saveToken c d u tdb (snd (saveToken a b u tda ts))) = snd (saveToken c d u tdb ts)"
    by (simp add: saveToken_def Let_def)
  have one: "length (filter (\<lambda>(k, r). k = u) (snd (saveToken c d u tdb ts))) = 1"
    using assms by (simp add: saveToken_store count_key_update)
  have look: "map_of (snd (saveToken c d u tdb ts)) u = Some (fst (saveToken c d u tdb ts))"
    by (simp add: saveToken_store map_of_update_same)
  have dist: "distinct (map fst (snd (saveToken c d u tdb ts)))"
    using assms by (simp add: saveToken_store AList.distinct_update)
  from rec store one look dist show ?thesis by simp
qed

theorem saveToken_twice_overwrites_witness:
  "distinct (map fst ([] :: (string \<times> credential) list))
   \<and> snd (saveToken 1700000000002 1700000000003 ''u1'' [(''accessToken'', JStr ''B'')]
        (snd (saveToken 1700000000000 1700000000001 ''u1''
           [(''accessToken'', JStr ''A''), (''instagramUsername'', JStr ''old'')] [])))
     = [(''u1'', \<lparr> accessToken = JStr ''B'', tokenType = JStr ''bearer'', expiresAt = Dbl 1705184000002,
              permissions = JArr [], instagramUserId = JUndefined, instagramAccountId = JNull,
              instagramUsername = JNull, pageAccessToken = JNull, createdAt = 1700000000003 \<rparr>)]"
  using saveToken_twice_overwrites [where ts = "[] :: (string \<times> credential) list"
      and c = 1700000000002 and d = 1700000000003 and a = 1700000000000 and b = 1700000000001
      and u = "''u1''" and tdb = "[(''accessToken'', JStr ''B'')]"
      and tda = "[(''accessToken'', JStr ''A''), (''instagramUsername'', JStr ''old'')]"]
  by (simp add: store_defs)

text \<open>
  C10. With the clock within the range of ECMAScript time values, \<open>saveToken\<close>
  lets the record expire 5,184,000 seconds (60 days) after the save whenever
  \<open>expiresIn\<close> is not of type number (a string such as \<^verbatim>\<open>'3600'\<close>, \<^verbatim>\<open>null\<close>, an
  object, a missing property), when it is \<^verbatim>\<open>NaN\<close> and when it is a number not
  above zero. A number above zero, and nothing else, is used as the duration:
  \<open>expiresAt\<close> is then the double \<^verbatim>\<open>Date.now() + expiresIn * 1000\<close>, which is
  exactly the save time plus the duration when \<open>expiresIn\<close> is a whole number of
  seconds and neither the product nor the sum exceeds \<open>2 ^ 53\<close>, and \<^verbatim>\<open>Infinity\<close>
  when \<open>expiresIn\<close> is.
\<close>

theorem saveToken_expiry_default:
  assumes "\<bar>now\<bar> \<le> 8640000000000000"
  shows "(typeof (get_prop td ''expiresIn'') \<noteq> ''number'' \<longrightarrow>
      expiresAt (fst (saveToken now created u td ts)) = ms (now + 5184000 * 1000))
   \<and> (get_prop td ''expiresIn'' = JNum NaN \<longrightarrow>
      expiresAt (fst (saveToken now created u td ts)) = ms (now + 5184000 * 1000))
   \<and> (\<forall>n. get_prop td ''expiresIn'' = JNum n \<and> \<not> num_gt n (Dbl 0) \<longrightarrow>
      expiresAt (fst (saveToken now created u td ts)) = ms (now + 5184000 * 1000))
   \<and> (\<forall>n. get_prop td ''expiresIn'' = JNum n \<and> num_gt n (Dbl 0) \<longrightarrow>
      expiresAt (fst (saveToken now created u td ts)) = num_add (ms now) (num_mul n (Dbl 1000)))
   \<and> (\<forall>k. get_prop td ''expiresIn'' = JNum (Dbl (of_int k)) \<and> 0 < k
           \<and> k * 1000 \<le> 2 ^ 53 \<and> now + k * 1000 \<le> 2 ^ 53 \<longrightarrow>
      expiresAt (fst (saveToken now created u td ts)) = ms (now + k * 1000))
   \<and> (get_prop td ''expiresIn'' = JNum PosInf \<longrightarrow>
      expiresAt (fst (saveToken now created u td ts)) = PosInf)
   \<and> (expiresAt (fst (saveToken now created u td ts)) \<noteq> ms (now + 5184000 * 1000) \<longrightarrow>
      typeof (get_prop td ''expiresIn'') = ''number''
      \<and> (\<exists>n. get_prop td ''expiresIn'' = JNum n \<and> num_gt n (Dbl 0)))"
proof -
  let ?x = "get_prop td ''expiresIn''"
  let ?r = "fst (saveToken now created u td ts)"
  have dflt: "expiresAt ?r = ms (now + 5184000 * 1000)" if "expiresInSeconds ?x = Dbl 5184000"
    using that assms by (simp only: saveToken_expiresAt expiry_default_exact)
  have a: "typeof ?x \<noteq> ''number'' \<longrightarrow> expiresAt ?r = ms (now + 5184000 * 1000)"
    by (simp add: expiresInSeconds_not_number dflt)
  have b: "?x = JNum NaN \<longrightarrow> expiresAt ?r = ms (now + 5184000 * 1000)"
    by (simp add: expiresInSeconds_def dflt)
  have c: "\<forall>n. ?x = JNum n \<and> \<not> num_gt n (Dbl 0) \<longrightarrow> expiresAt ?r = ms (now + 5184000 * 1000)"
    by (simp add: expiresInSeconds_def dflt)
  have d: "\<forall>n. ?x = JNum n \<and> num_gt n (Dbl 0) \<longrightarrow>
      expiresAt ?r = num_add (ms now) (num_mul n (Dbl 1000))"
    by (simp add: saveToken_expiresAt expiresInSeconds_positive)
  have e: "expiresAt ?r = ms (now + k * 1000)"
    if "?x = JNum (Dbl (of_int k))" "0 < k" "k * 1000 \<le> 2 ^ 53" "now + k * 1000 \<le> 2 ^ 53" for k
  proof -
    from that(2) have "num_gt (Dbl (of_int k)) (Dbl 0)" by simp
    then have "expiresInSeconds ?x = Dbl (of_int k)"
      by (simp add: that(1) expiresInSeconds_positive)
    moreover have "\<bar>k * 1000\<bar> \<le> 2 ^ 53" "\<bar>now + k * 1000\<bar> \<le> 2 ^ 53"
      using that(2,3,4) assms by simp_all
    ultimately show ?thesis
      by (simp only: saveToken_expiresAt expiry_whole_exact)
  qed
  have f: "?x = JNum PosInf \<longrightarrow> expiresAt ?r = PosInf"
    by (simp add: saveToken_expiresAt expiresInSeconds_def ms_def)
  have g: "expiresAt ?r \<noteq> ms (now + 5184000 * 1000) \<longrightarrow>
      typeof ?x = ''number'' \<and> (\<exists>n. ?x = JNum n \<and> num_gt n (Dbl 0))"
  proof
    assume ne: "expiresAt ?r \<noteq> ms (now + 5184000 * 1000)"
    with dflt have "expiresInSeconds ?x \<noteq> Dbl 5184000" by blast
    then show "typeof ?x = ''number'' \<and> (\<exists>n. ?x = JNum n \<and> num_gt n (Dbl 0))"
      by (cases ?x) (auto simp: expiresInSeconds_def split: if_splits)
  qed
  from a b c d e f g show ?thesis by blast
qed

theorem saveToken_expiry_default_witness:
  "\<bar>1700000000000 :: int\<bar> \<le> 8640000000000000
   \<and> typeof (get_prop [(''expiresIn'', JStr ''3600'')] ''expiresIn'') \<noteq> ''number''
   \<and> expiresAt (fst (saveToken 1700000000000 1700000000001 ''u1'' [(''expiresIn'', JStr ''3600'')] []))
       = ms (1700000000000 + 5184000 * 1000)
   \<and> typeof (get_prop [(''expiresIn'', JNull)] ''expiresIn'') \<noteq> ''number''
   \<and> expiresAt (fst (saveToken 1700000000000 1700000000001 ''u1'' [(''expiresIn'', JNull)] []))
       = ms (1700000000000 + 5184000 * 1000)
   \<and> typeof (get_prop [(''expiresIn'', JObj [])] ''expiresIn'') \<noteq> ''number''
   \<and> expiresAt (fst (saveToken 1700000000000 1700000000001 ''u1'' [(''expiresIn'', JObj [])] []))
       = ms (1700000000000 + 5184000 * 1000)
   \<and> get_prop [(''expiresIn'', JNum (Dbl 3600))] ''expiresIn'' = JNum (Dbl (of_int 3600))
   \<and> expiresAt (fst (saveToken 1700000000000 1700000000001 ''u1'' [(''expiresIn'', JNum (Dbl 3600))] []))
       = ms (1700000000000 + 3600 * 1000)
   \<and> expiresAt (fst (saveToken 1700000000000 1700000000001 ''u1'' [(''expiresIn'', JNum PosInf)] []))
       = PosInf"
  using saveToken_expiry_default [where td = "[(''expiresIn'', JStr ''3600'')]"
      and now = 1700000000000 and created = 1700000000001 and u = "''u1''" and ts = "[]"]
    saveToken_expiry_default [where td = "[(''expiresIn'', JNull)]"
      and now = 1700000000000 and created = 1700000000001 and u = "''u1''" and ts = "[]"]
    saveToken_expiry_default [where td = "[(''expiresIn'', JObj [])]"
      and now = 1700000000000 and created = 1700000000001 and u = "''u1''" and ts = "[]"]
    saveToken_expiry_default [where td = "[(''expiresIn'', JNum (Dbl 3600))]"
      and now = 1700000000000 and created = 1700000000001 and u = "''u1''" and ts = "[]"]
    saveToken_expiry_default [where td = "[(''expiresIn'', JNum PosInf)]"
      and now = 1700000000000 and created = 1700000000001 and u = "''u1''" and ts = "[]"]
  by (simp add: get_prop_def ms_def fl_whole)

section \<open>Properties of the OAuth callback\<close>

lemma validateState_fails:
  "map_of ss s = None \<Longrightarrow> validateState now s ss = (False, ss)"
  by (simp add: validateState_def)

lemma validateState_false_iff:
  "fst (validateState now s ss) = False \<longleftrightarrow>
     s = [] \<or> map_of ss s = None
     \<or> (\<exists>ts. map_of ss s = Some ts \<and> (ts = 0 \<or> now - ts > STATE_EXPIRATION_MS))"
  by (auto simp: validateState_def split: option.splits)

lemma callback_error_param:
  "given (error q) \<Longrightarrow> callback net vnow now created q sys
     = (ErrorPage (or_else (error_description q) (or_else (error_reason q) ''Authorization failed'')), [], sys)"
  by (simp add: callback_def)

lemma callback_missing:
  "\<not> given (error q) \<Longrightarrow> \<not> given (code q) \<or> \<not> given (state q) \<Longrightarrow>
   callback net vnow now created q sys = (ErrorPage ''Invalid callback parameters'', [], sys)"
  by (auto simp: callback_def given_def split: option.splits)

lemma callback_validation_failed:
  assumes "\<not> given (error q)" and "given (code q)" and "state q = Some s" and "s \<noteq> []"
    and "fst (validateState vnow s (stateStore sys)) = False"
  shows "callback net vnow now created q sys
     = (ErrorPage ''Security validation failed'', [],
        sys\<lparr> stateStore := snd (validateState vnow s (stateStore sys)) \<rparr>)"
proof -
  obtain b ss where v: "validateState vnow s (stateStore sys) = (b, ss)"
    by (cases "validateState vnow s (stateStore sys)")
  with assms(5) have "b = False" by simp
  with v assms(1-4) show ?thesis
    by (auto simp: callback_def given_def split: option.splits)
qed

lemma truthy_not_null: "truthy v \<Longrightarrow> v \<noteq> JNull"
  by auto

lemma find_instagram_account_result:
  assumes "find_instagram_account net ps = (Inr (acct, uname, tok), calls)"
  shows "(acct = JNull \<and> tok = JNull \<and> (\<forall>p \<in> set ps. instagram_business_account p = None))
       \<or> (\<exists>p \<in> set ps. instagram_business_account p = Some acct \<and> tok = page_access_token p)"
  using assms
proof (induction ps)
  case Nil
  then show ?case by simp
next
  case (Cons p ps)
  show ?case
  proof (cases "instagram_business_account p")
    case None
    with Cons.prems have "find_instagram_account net ps = (Inr (acct, uname, tok), calls)"
      by simp
    from Cons.IH [OF this] None show ?thesis by auto
  next
    case (Some a)
    with Cons.prems show ?thesis
      by (auto split: sum.splits)
  qed
qed

lemma find_instagram_account_paired:
  assumes "find_instagram_account net ps = (Inr (acct, uname, tok), calls)"
    and "\<forall>p \<in> set ps. linked_page_complete p"
  shows "(js_or acct JNull = JNull) = (js_or tok JNull = JNull)"
proof -
  from find_instagram_account_result [OF assms(1)]
  consider "acct = JNull \<and> tok = JNull"
    | p where "p \<in> set ps" "instagram_business_account p = Some acct" "tok = page_access_token p"
    by blast
  then show ?thesis
  proof cases
    case 1
    then show ?thesis by (simp add: js_or_def)
  next
    case 2
    with assms(2) have "truthy acct \<and> truthy tok"
      by (auto simp: linked_page_complete_def)
    then show ?thesis by (auto simp: js_or_def)
  qed
qed

lemma exchange_and_store_paired:
  assumes pages: "\<And>tok ps. getFacebookPages net tok = Inr ps \<Longrightarrow> \<forall>p \<in> set ps. linked_page_complete p"
    and inv: "\<forall>(k, r) \<in> set (tokenStore sys). paired r"
  shows "\<forall>(k, r) \<in> set (tokenStore (snd (snd (exchange_and_store net now created c sys)))). paired r"
proof (cases "exchangeCodeForToken net c")
  case (Inl m)
  with inv show ?thesis by (simp add: exchange_and_store_def)
next
  case short: (Inr shortLived)
  show ?thesis
  proof (cases "exchangeForLongLivedToken net (access_token shortLived)")
    case (Inl m)
    with short inv show ?thesis by (simp add: exchange_and_store_def)
  next
    case long: (Inr longLived)
    show ?thesis
    proof (cases "getInstagramUser net (access_token longLived)")
      case (Inl m)
      with short long inv show ?thesis by (simp add: exchange_and_store_def)
    next
      case user: (Inr userInfo)
      show ?thesis
      proof (cases "getFacebookPages net (access_token longLived)")
        case (Inl m)
        with short long user inv show ?thesis by (simp add: exchange_and_store_def)
      next
        case pgs: (Inr ps)
        from pages [OF pgs] have complete: "\<forall>p \<in> set ps. linked_page_complete p" .
        obtain res calls where f: "find_instagram_account net ps = (res, calls)"
          by (cases "find_instagram_account net ps")
        show ?thesis
        proof (cases res)
          case (Inl m)
          with short long user pgs f inv show ?thesis by (simp add: exchange_and_store_def)
        next
          case (Inr triple)
          obtain acct uname tok where t: "triple = (acct, uname, tok)"
            by (cases triple)
          from f Inr t have f': "find_instagram_account net ps = (Inr (acct, uname, tok), calls)"
            by simp
          let ?r = "fst (saveToken now created (user_id userInfo)
                     [(''accessToken'', access_token longLived),
                      (''tokenType'', js_or (token_type longLived) (JStr ''bearer'')),
                      (''expiresIn'', expires_in longLived),
                      (''permissions'', JArr []),
                      (''instagramUserId'', user_id userInfo),
                      (''instagramAccountId'', acct),
                      (''instagramUsername'', uname),
                      (''pageAccessToken'', tok)]
                     (tokenStore sys))"
          have new: "paired ?r"
            using find_instagram_account_paired [OF f' complete]
            by (simp add: paired_def saveToken_def Let_def get_prop_def)
          have store: "tokenStore (snd (snd (exchange_and_store net now created c sys)))
                = AList.update (user_id userInfo) ?r (tokenStore sys)"
            using short long user pgs f' by (simp add: exchange_and_store_def saveToken_def Let_def)
          have "set (AList.update (user_id userInfo) ?r (tokenStore sys))
                \<subseteq> insert (user_id userInfo, ?r) (set (tokenStore sys))"
            by (rule set_update_subset)
          with new inv store show ?thesis by auto
        qed
      qed
    qed
  qed
qed

lemma callback_tokenStore_cases:
  "tokenStore (snd (snd (callback net vnow now created q sys))) = tokenStore sys
   \<or> (\<exists>c ss. tokenStore (snd (snd (callback net vnow now created q sys)))
         = tokenStore (snd (snd (exchange_and_store net now created c (sys\<lparr> stateStore := ss \<rparr>)))))"
  by (auto simp: callback_def split: option.splits prod.splits bool.splits)

lemmas run_defs = callback_def given_def or_else_def validateState_def STATE_EXPIRATION_MS_def
  exchange_and_store_def exchangeCodeForToken_def exchangeForLongLivedToken_def
  getInstagramUser_def getFacebookPages_def getInstagramBusinessAccount_def caught_def
  stub_network_def saveToken_def get_prop_def js_or_def expiresInSeconds_def Let_def
  ms_def fl_whole

text \<open>
  C2 (as amended). A callback without an \<^verbatim>\<open>error\<close> parameter, with a non-empty
  \<^verbatim>\<open>code\<close> and a non-empty \<^verbatim>\<open>state\<close> that \<open>validateState\<close> refuses (by
  \<open>validateState_false_iff\<close>: a token the registry does not hold, because it was
  never issued or was consumed already, or one that has expired) is always
  redirected to the error page with the one message
  \<^verbatim>\<open>Security validation failed\<close>. A callback whose \<^verbatim>\<open>state\<close> is missing or empty
  is redirected with the message \<^verbatim>\<open>Invalid callback parameters\<close> instead.
\<close>

theorem callback_csrf_failure:
  assumes "\<not> given (error q)"
  shows "(given (code q) \<and> state q = Some s \<and> s \<noteq> []
            \<and> fst (validateState vnow s (stateStore sys)) = False \<longrightarrow>
          fst (callback net vnow now created q sys) = ErrorPage ''Security validation failed'')
       \<and> (\<not> given (state q) \<longrightarrow>
          fst (callback net vnow now created q sys) = ErrorPage ''Invalid callback parameters'')"
  using assms
  by (simp add: callback_validation_failed callback_missing)

theorem callback_csrf_failure_witness:
  "\<not> given (error \<lparr> code = Some ''c1'', state = Some ''forged'', error = None, error_reason = None,
          error_description = None \<rparr>)
   \<and> fst (validateState 1700000000500 ''forged'' [(''s1'', 1700000000000)]) = False
   \<and> fst (callback (stub_network []) 1700000000500 1700000001000 1700000001001
        \<lparr> code = Some ''c1'', state = Some ''forged'', error = None, error_reason = None,
          error_description = None \<rparr>
        \<lparr> stateStore = [(''s1'', 1700000000000)], tokenStore = [] \<rparr>)
     = ErrorPage ''Security validation failed''
   \<and> fst (validateState 1700000600001 ''s1'' [(''s1'', 1700000000000)]) = False
   \<and> fst (callback (stub_network []) 1700000600001 1700000601000 1700000601001
        \<lparr> code = Some ''c1'', state = Some ''s1'', error = None, error_reason = None,
          error_description = None \<rparr>
        \<lparr> stateStore = [(''s1'', 1700000000000)], tokenStore = [] \<rparr>)
     = ErrorPage ''Security validation failed''
   \<and> \<not> given (state \<lparr> code = Some ''c1'', state = None, error = None, error_reason = None,
          error_description = None \<rparr>)
   \<and> fst (callback (stub_network []) 1700000000500 1700000001000 1700000001001
        \<lparr> code = Some ''c1'', state = None, error = None, error_reason = None,
          error_description = None \<rparr>
        \<lparr> stateStore = [(''s1'', 1700000000000)], tokenStore = [] \<rparr>)
     = ErrorPage ''Invalid callback parameters''"
  using callback_csrf_failure [where q = "\<lparr> code = Some ''c1'', state = Some ''forged'', error = None,
        error_reason = None, error_description = None \<rparr>" and s = "''forged''"
      and vnow = 1700000000500 and now = 1700000001000 and created = 1700000001001
      and net = "stub_network []"
      and sys = "\<lparr> stateStore = [(''s1'', 1700000000000)], tokenStore = [] \<rparr>"]
    callback_csrf_failure [where q = "\<lparr> code = Some ''c1'', state = Some ''s1'', error = None,
        error_reason = None, error_description = None \<rparr>" and s = "''s1''"
      and vnow = 1700000600001 and now = 1700000601000 and created = 1700000601001
      and net = "stub_network []"
      and sys = "\<lparr> stateStore = [(''s1'', 1700000000000)], tokenStore = [] \<rparr>"]
    callback_csrf_failure [where q = "\<lparr> code = Some ''c1'', state = None, error = None,
        error_reason = None, error_description = None \<rparr>" and s = "''s1''"
      and vnow = 1700000000500 and now = 1700000001000 and created = 1700000001001
      and net = "stub_network []"
      and sys = "\<lparr> stateStore = [(''s1'', 1700000000000)], tokenStore = [] \<rparr>"]
  by (simp add: given_def validateState_def STATE_EXPIRATION_MS_def)

text \<open>
  C2 as stated fails: a callback with a code and no state token is answered with
  \<^verbatim>\<open>Invalid callback parameters\<close>, which the user can tell from
  \<^verbatim>\<open>Security validation failed\<close>.
\<close>

theorem callback_missing_state_counterexample:
  "fst (callback (stub_network []) 1700000000500 1700000001000 1700000001001
        \<lparr> code = Some ''c1'', state = None, error = None, error_reason = None,
          error_description = None \<rparr>
        \<lparr> stateStore = [(''s1'', 1700000000000)], tokenStore = [] \<rparr>)
     = ErrorPage ''Invalid callback parameters''
   \<and> ErrorPage ''Invalid callback parameters'' \<noteq> ErrorPage ''Security validation failed''"
  by (simp add: callback_def given_def)

text \<open>
  C6 (as amended). If every page that the network reports with a linked business
  account carries a truthy account id and a truthy access token, then the
  callback keeps the token store paired: when every record held before has
  \<open>instagramAccountId\<close> and \<open>pageAccessToken\<close> both \<^verbatim>\<open>null\<close> or both not \<^verbatim>\<open>null\<close>,
  so has every record held afterwards, the one the callback wrote included.
\<close>

theorem callback_keeps_paired:
  assumes "\<And>tok ps. getFacebookPages net tok = Inr ps \<Longrightarrow> \<forall>p \<in> set ps. linked_page_complete p"
    and "\<forall>(k, r) \<in> set (tokenStore sys). paired r"
  shows "\<forall>(k, r) \<in> set (tokenStore (snd (snd (callback net vnow now created q sys)))). paired r"
proof -
  have step: "\<forall>(k, r) \<in> set (tokenStore (snd (snd (exchange_and_store net now created c
      (sys\<lparr> stateStore := ss \<rparr>))))). paired r" for c ss
    using assms by (intro exchange_and_store_paired) simp_all
  from callback_tokenStore_cases [of net vnow now created q sys]
  show ?thesis
  proof
    assume "tokenStore (snd (snd (callback net vnow now created q sys))) = tokenStore sys"
    with assms(2) show ?thesis by simp
  next
    assume "\<exists>c ss. tokenStore (snd (snd (callback net vnow now created q sys)))
         = tokenStore (snd (snd (exchange_and_store net now created c (sys\<lparr> stateStore := ss \<rparr>))))"
    then obtain c ss where "tokenStore (snd (snd (callback net vnow now created q sys)))
         = tokenStore (snd (snd (exchange_and_store net now created c (sys\<lparr> stateStore := ss \<rparr>))))"
      by blast
    with step [of c ss] show ?thesis by simp
  qed
qed

theorem callback_keeps_paired_witness:
  "tokenStore \<lparr> stateStore = [(''s1'', 1700000000000)], tokenStore = [] \<rparr> = []
   \<and> linked_page_complete \<lparr> page_access_token = JStr ''P'',
             instagram_business_account = Some (JStr ''17841400000000000'') \<rparr>
   \<and> tokenStore (snd (snd (callback (stub_network [\<lparr> page_access_token = JStr ''P'',
             instagram_business_account = Some (JStr ''17841400000000000'') \<rparr>])
        1700000000500 1700000001000 1700000001001
        \<lparr> code = Some ''c1'', state = Some ''s1'', error = None, error_reason = None,
          error_description = None \<rparr>
        \<lparr> stateStore = [(''s1'', 1700000000000)], tokenStore = [] \<rparr>)))
     = [(JStr ''42'',
         \<lparr> accessToken = JStr ''B'', tokenType = JStr ''bearer'', expiresAt = Dbl 1705184001000,
           permissions = JArr [], instagramUserId = JStr ''42'',
           instagramAccountId = JStr ''17841400000000000'', instagramUsername = JStr ''shop'',
           pageAccessToken = JStr ''P'', createdAt = 1700000001001 \<rparr>)]
   \<and> paired \<lparr> accessToken = JStr ''B'', tokenType = JStr ''bearer'', expiresAt = Dbl 1705184001000,
           permissions = JArr [], instagramUserId = JStr ''42'',
           instagramAccountId = JStr ''17841400000000000'', instagramUsername = JStr ''shop'',
           pageAccessToken = JStr ''P'', createdAt = 1700000001001 \<rparr>"
proof -
  let ?net = "stub_network [\<lparr> page_access_token = JStr ''P'',
             instagram_business_account = Some (JStr ''17841400000000000'') \<rparr>]"
  let ?sys = "\<lparr> stateStore = [(''s1'', 1700000000000)], tokenStore = [] \<rparr>"
  let ?q = "\<lparr> code = Some ''c1'', state = Some ''s1'', error = None, error_reason = None,
          error_description = None \<rparr>"
  have pages: "\<And>tok ps. getFacebookPages ?net tok = Inr ps \<Longrightarrow> \<forall>p \<in> set ps. linked_page_complete p"
    by (auto simp: getFacebookPages_def stub_network_def linked_page_complete_def)
  have inv: "\<forall>(k, r) \<in> set (tokenStore ?sys). paired r"
    by simp
  have run: "tokenStore (snd (snd (callback ?net 1700000000500 1700000001000 1700000001001 ?q ?sys)))
     = [(JStr ''42'',
         \<lparr> accessToken = JStr ''B'', tokenType = JStr ''bearer'', expiresAt = Dbl 1705184001000,
           permissions = JArr [], instagramUserId = JStr ''42'',
           instagramAccountId = JStr ''17841400000000000'', instagramUsername = JStr ''shop'',
           pageAccessToken = JStr ''P'', createdAt = 1700000001001 \<rparr>)]"
    by (simp add: run_defs)
  from callback_keeps_paired [of ?net ?sys 1700000000500 1700000001000 1700000001001 ?q, OF pages inv]
  have "paired \<lparr> accessToken = JStr ''B'', tokenType = JStr ''bearer'', expiresAt = Dbl 1705184001000,
           permissions = JArr [], instagramUserId = JStr ''42'',
           instagramAccountId = JStr ''17841400000000000'', instagramUsername = JStr ''shop'',
           pageAccessToken = JStr ''P'', createdAt = 1700000001001 \<rparr>"
    unfolding run by simp
  with run show ?thesis
    by (simp add: linked_page_complete_def)
qed

text \<open>
  C6 as stated fails: when the first page with a linked account comes without an
  access token and the lookup of the account still succeeds, the callback stores
  a record with an \<open>instagramAccountId\<close> and with \<open>pageAccessToken\<close> \<^verbatim>\<open>null\<close>.
\<close>

theorem callback_unpaired_counterexample:
  "tokenStore (snd (snd (callback (stub_network [\<lparr> page_access_token = JUndefined,
             instagram_business_account = Some (JStr ''17841400000000000'') \<rparr>])
        1700000000500 1700000001000 1700000001001
        \<lparr> code = Some ''c1'', state = Some ''s1'', error = None, error_reason = None,
          error_description = None \<rparr>
        \<lparr> stateStore = [(''s1'', 1700000000000)], tokenStore = [] \<rparr>)))
     = [(JStr ''42'',
         \<lparr> accessToken = JStr ''B'', tokenType = JStr ''bearer'', expiresAt = Dbl 1705184001000,
           permissions = JArr [], instagramUserId = JStr ''42'',
           instagramAccountId = JStr ''17841400000000000'', instagramUsername = JStr ''shop'',
           pageAccessToken = JNull, createdAt = 1700000001001 \<rparr>)]"
  by (simp add: run_defs)

text \<open>
  C8. A callback whose \<^verbatim>\<open>state\<close> parameter is not held by the registry, arriving
  as the authorization service sends it after a grant (a non-empty \<^verbatim>\<open>code\<close>, a
  non-empty \<^verbatim>\<open>state\<close>, no \<^verbatim>\<open>error\<close> parameter), is redirected to the error page
  with the message \<^verbatim>\<open>Security validation failed\<close>; no request is sent to the
  network, and the token store and the registry are left as they were. Whatever
  the other parameters are, a callback with an unknown state ends in the error
  page without a request and without a change of either store; its message is
  the upstream text (\<^verbatim>\<open>error_description\<close>, else \<^verbatim>\<open>error_reason\<close>, else
  \<^verbatim>\<open>Authorization failed\<close>) when an \<^verbatim>\<open>error\<close> parameter is given, and
  \<^verbatim>\<open>Invalid callback parameters\<close> when there is none and the code or the state
  is empty.
\<close>

theorem callback_unknown_state:
  assumes "state q = Some s" and "map_of (stateStore sys) s = None"
  shows "(\<not> given (error q) \<and> given (code q) \<and> s \<noteq> [] \<longrightarrow>
            callback net vnow now created q sys = (ErrorPage ''Security validation failed'', [], sys))
       \<and> callback net vnow now created q sys
           = (ErrorPage (if given (error q)
                           then or_else (error_description q)
                                  (or_else (error_reason q) ''Authorization failed'')
                         else if given (code q) \<and> s \<noteq> [] then ''Security validation failed''
                         else ''Invalid callback parameters''),
              [], sys)"
proof -
  have v: "validateState vnow s (stateStore sys) = (False, stateStore sys)"
    using assms(2) by (rule validateState_fails)
  have generic: "callback net vnow now created q sys = (ErrorPage ''Security validation failed'', [], sys)"
    if "\<not> given (error q)" "given (code q)" "s \<noteq> []"
    using callback_validation_failed [OF that(1,2) assms(1) that(3), of vnow sys net now created] v
    by simp
  have upstream: "callback net vnow now created q sys
      = (ErrorPage (or_else (error_description q) (or_else (error_reason q) ''Authorization failed'')),
         [], sys)"
    if "given (error q)"
    using that by (rule callback_error_param)
  have invalid: "callback net vnow now created q sys = (ErrorPage ''Invalid callback parameters'', [], sys)"
    if "\<not> given (error q)" "\<not> (given (code q) \<and> s \<noteq> [])"
  proof -
    from that(2) assms(1) have "\<not> given (code q) \<or> \<not> given (state q)"
      by (auto simp: given_def)
    with that(1) show ?thesis by (rule callback_missing)
  qed
  from generic upstream invalid show ?thesis by simp
qed

theorem callback_unknown_state_witness:
  "state \<lparr> code = Some ''c1'', state = Some ''forged'', error = None, error_reason = None,
          error_description = None \<rparr> = Some ''forged''
   \<and> map_of (stateStore \<lparr> stateStore = [(''s1'', 1700000000000)], tokenStore = [] \<rparr>) ''forged'' = None
   \<and> callback (stub_network []) 1700000000500 1700000001000 1700000001001
        \<lparr> code = Some ''c1'', state = Some ''forged'', error = None, error_reason = None,
          error_description = None \<rparr>
        \<lparr> stateStore = [(''s1'', 1700000000000)], tokenStore = [] \<rparr>
     = (ErrorPage ''Security validation failed'', [],
        \<lparr> stateStore = [(''s1'', 1700000000000)], tokenStore = [] \<rparr>)
   \<and> callback (stub_network []) 1700000000500 1700000001000 1700000001001
        \<lparr> code = None, state = Some ''forged'', error = Some ''access_denied'', error_reason = None,
          error_description = None \<rparr>
        \<lparr> stateStore = [(''s1'', 1700000000000)], tokenStore = [] \<rparr>
     = (ErrorPage ''Authorization failed'', [],
        \<lparr> stateStore = [(''s1'', 1700000000000)], tokenStore = [] \<rparr>)"
  using callback_unknown_state [where q = "\<lparr> code = Some ''c1'', state = Some ''forged'', error = None,
        error_reason = None, error_description = None \<rparr>" and s = "''forged''"
      and vnow = 1700000000500 and now = 1700000001000 and created = 1700000001001
      and net = "stub_network []"
      and sys = "\<lparr> stateStore = [(''s1'', 1700000000000)], tokenStore = [] \<rparr>"]
    callback_unknown_state [where q = "\<lparr> code = None, state = Some ''forged'',
        error = Some ''access_denied'', error_reason = None, error_description = None \<rparr>"
      and s = "''forged''"
      and vnow = 1700000000500 and now = 1700000001000 and created = 1700000001001
      and net = "stub_network []"
      and sys = "\<lparr> stateStore = [(''s1'', 1700000000000)], tokenStore = [] \<rparr>"]
  by (simp add: given_def or_else_def)

end
